theory Spec2Isabelle
  imports Main "HOL-Library.Word"
begin

unbundle bit_operations_syntax

section \<open>Values of the Go program\<close>

text \<open>
  The package declares its error values once (\<open>errors.New\<close>) and compares them by
  identity. Each of them is a constructor. \<open>Errorf\<close> is an error made by
  \<open>fmt.Errorf\<close>, with its message. \<open>LibraryError\<close> is an error value handed back by
  \<open>encoding/json\<close> or \<open>net/http\<close>: such a value is never identical to one of the
  package's own.
\<close>

datatype error =
    errStateNotFound
  | errConfigurationNotFound
  | errFlockerControlServiceHost
  | errFlockerControlServicePort
  | errVolumeAlreadyExists
  | errVolumeDoesNotExist
  | errUpdatingDataset
  | Errorf string
  | LibraryError string

text \<open>
  A Go function that dereferences a nil pointer panics; a function that can do so
  returns an \<open>outcome\<close>.
\<close>

datatype 'a outcome = Return 'a | Panic

subsection \<open>Decimal numbers in strings\<close>

text \<open>The verb \<open>%d\<close> of \<open>fmt.Sprintf\<close> and \<open>fmt.Errorf\<close>.\<close>

fun utoa :: "nat \<Rightarrow> string" where
  "utoa n = (if n < 10 then [''0123456789'' ! n]
             else utoa (n div 10) @ [''0123456789'' ! (n mod 10)])"

declare utoa.simps [simp del]

definition itoa :: "int \<Rightarrow> string" where
  "itoa i = (if i < 0 then CHR ''-'' # utoa (nat (- i)) else utoa (nat i))"

text \<open>
  \<open>strconv.Atoi\<close>, which the package's test applies to \<open>defaultVolumeSize\<close>: an
  optional sign, then decimal digits only, and a value that fits Go's \<open>int\<close>
  (64 bits). \<open>None\<close> is the error return.
\<close>

definition digitVal :: "char \<Rightarrow> nat option" where
  "digitVal c = (let n = (of_char c :: nat) in
                 if 48 \<le> n \<and> n \<le> 57 then Some (n - 48) else None)"

fun parseDigits :: "nat \<Rightarrow> string \<Rightarrow> nat option" where
  "parseDigits acc [] = Some acc"
| "parseDigits acc (c # cs) =
     (case digitVal c of None \<Rightarrow> None | Some d \<Rightarrow> parseDigits (10 * acc + d) cs)"

definition Atoi :: "string \<Rightarrow> int option" where
  "Atoi s =
     (let (neg, ds) = (case s of
                         c # cs \<Rightarrow> if c = CHR ''-'' then (True, cs)
                                   else if c = CHR ''+'' then (False, cs) else (False, s)
                       | [] \<Rightarrow> (False, s))
      in if ds = [] then None
         else (case parseDigits 0 ds of
                 None \<Rightarrow> None
               | Some n \<Rightarrow>
                   (let v = (if neg then - int n else int n)
                    in if - (2 ^ 63) \<le> v \<and> v < 2 ^ 63 then Some v else None)))"

subsection \<open>Payloads\<close>

text \<open>\<open>json.Number\<close> is a string type.\<close>

type_synonym Number = string

definition defaultVolumeSize :: Number where
  "defaultVolumeSize = ''107374182400''"

record metadataPayload =
  Name :: string

record configurationPayload =
  Primary :: string
  DatasetID :: string
  MaximumSize :: Number
  Metadata :: metadataPayload

record datasetState =
  Path :: string
  DatasetID :: string
  Primary :: string
  MaximumSize :: Number

text \<open>
  \<open>datasetStatePayload\<close> embeds a pointer \<open>*datasetState\<close>, which is nil (\<open>None\<close>)
  in a payload that the decoder did not fill.
\<close>

type_synonym datasetStatePayload = "datasetState option"

record nodeStatePayload =
  UUID :: string
  Host :: string

text \<open>
  What the callers of \<open>post\<close> and \<open>get\<close> pass as \<open>payload interface{}\<close>: nil, a
  \<open>configurationPayload\<close>, or the anonymous \<open>struct{ Primary string }\<close> of
  \<open>Client.UpdateDatasetPrimary\<close>.
\<close>

datatype payload =
    NilPayload
  | ConfigurationPayload configurationPayload
  | PrimaryStruct string

subsection \<open>Requests, responses and clients\<close>

record request =
  Method :: string
  URL :: string
  ContentType :: string
  Body :: string

record response =
  StatusCode :: int
  Body :: string

text \<open>
  The file declares the client twice, as \<open>flockerClient\<close> and as \<open>Client\<close>, which
  has the field \<open>clientIP\<close> more. The methods \<open>request\<close>, \<open>post\<close>, \<open>get\<close>,
  \<open>getURL\<close>, \<open>findIDInConfigurationsPayload\<close> and \<open>GetDatasetState\<close> have the same
  body for both receivers and are embedded once, over the fields the two share.
  The embedded \<open>*http.Client\<close> is part of the environment below.
\<close>

record flockerClient =
  schema :: string
  host :: string
  port :: int
  version :: string
  maximumSize :: Number

record Client = flockerClient +
  clientIP :: string

subsection \<open>The environment\<close>

text \<open>
  The two channels a \<open>select\<close> of the polling loop receives from.
\<close>

datatype select_case = timeoutChan | tickChan

text \<open>
  What the program calls and is not part of the package, as parameters:
  \<^item> \<open>Marshal\<close>: \<open>json.Marshal\<close>, the encoded payload or an error message;
  \<^item> \<open>NewRequestError\<close>: the error of \<open>http.NewRequest\<close> for a method and a URL,
    if it has one;
  \<^item> \<open>Reply\<close>: what \<open>http.Client.Do\<close> hands back for the \<open>n\<close>-th request sent
    (counted from 0), a transport error message or the response;
  \<^item> \<open>DecodeNodes\<close>, \<open>DecodeStates\<close>, \<open>DecodeConfigurations\<close>,
    \<open>DecodeConfiguration\<close>: \<open>json.NewDecoder(body).Decode\<close> into a
    \<open>[]nodeStatePayload\<close>, a \<open>[]datasetStatePayload\<close>, a \<open>[]configurationPayload\<close>
    and a \<open>configurationPayload\<close>, the decoded value or an error message;
  \<^item> \<open>MD5\<close>: the digest of \<open>crypto/md5\<close>;
  \<^item> \<open>Select\<close>: the channel that the \<open>k\<close>-th \<open>select\<close> of a polling loop receives
    from (counted from 0), which stands for the two timers.
\<close>

record env =
  Marshal :: "payload \<Rightarrow> string + string"
  NewRequestError :: "string \<Rightarrow> string \<Rightarrow> string option"
  Reply :: "nat \<Rightarrow> string + response"
  DecodeNodes :: "string \<Rightarrow> string + nodeStatePayload list"
  DecodeStates :: "string \<Rightarrow> string + datasetStatePayload list"
  DecodeConfigurations :: "string \<Rightarrow> string + configurationPayload list"
  DecodeConfiguration :: "string \<Rightarrow> string + configurationPayload"
  MD5 :: "8 word list \<Rightarrow> 8 word list"
  Select :: "nat \<Rightarrow> select_case"

text \<open>
  The state that the operations thread is the list of the requests sent so far, in
  order.
\<close>

definition NewRequest :: "env \<Rightarrow> string \<Rightarrow> string \<Rightarrow> string \<Rightarrow> error + request" where
  "NewRequest E method url b =
     (case NewRequestError E method url of
        Some msg \<Rightarrow> Inl (LibraryError msg)
      | None \<Rightarrow> Inr \<lparr>Method = method, URL = url, ContentType = [], request.Body = b\<rparr>)"

definition Do :: "env \<Rightarrow> request \<Rightarrow> request list \<Rightarrow> (error + response) \<times> request list" where
  "Do E req sent =
     ((case Reply E (length sent) of
         Inl msg \<Rightarrow> Inl (LibraryError msg)
       | Inr resp \<Rightarrow> Inr resp),
      sent @ [req])"

section \<open>Identifier derivation\<close>

text \<open>
  \<open>uuid.NewHash\<close> and \<open>UUID.String\<close> of \<open>github.com/pborman/uuid\<close>, which
  \<open>datasetIDFromName\<close> calls. \<open>NewHash\<close> writes the namespace and the data to the
  hash, copies the digest into 16 bytes, and sets the version and the variant.
  \<open>String\<close> prints 16 bytes in lower-case hexadecimal, in groups of 4, 2, 2, 2 and
  6 bytes joined by \<open>-\<close>, and anything else as the empty string.
\<close>

definition NIL :: "8 word list" where
  "NIL = replicate 16 0"

definition NewHash :: "(8 word list \<Rightarrow> 8 word list) \<Rightarrow> 8 word list \<Rightarrow> 8 word list \<Rightarrow> 8 word \<Rightarrow> 8 word list" where
  "NewHash h space data vers =
     (let s = h (space @ data);
          uuid = take 16 s @ replicate (16 - length s) 0;
          uuid = uuid[6 := ((uuid ! 6) AND 0x0f) OR push_bit 4 (vers AND 0xf)];
          uuid = uuid[8 := ((uuid ! 8) AND 0x3f) OR 0x80]
      in uuid)"

definition hexByte :: "8 word \<Rightarrow> string" where
  "hexByte v = [''0123456789abcdef'' ! unat (drop_bit 4 v),
                ''0123456789abcdef'' ! unat (v AND 0x0f)]"

definition hexEncode :: "8 word list \<Rightarrow> string" where
  "hexEncode src = concat (map hexByte src)"

definition UUID_String :: "8 word list \<Rightarrow> string" where
  "UUID_String uuid =
     (if length uuid \<noteq> 16 then []
      else hexEncode (take 4 uuid) @ ''-'' @ hexEncode (take 2 (drop 4 uuid)) @ ''-''
         @ hexEncode (take 2 (drop 6 uuid)) @ ''-'' @ hexEncode (take 2 (drop 8 uuid)) @ ''-''
         @ hexEncode (drop 10 uuid))"

definition datasetIDFromName :: "env \<Rightarrow> string \<Rightarrow> string" where
  "datasetIDFromName E v =
     (let space = NIL
      in UUID_String (NewHash (MD5 E) space (map of_char v) 4))"

section \<open>Transport\<close>

definition request ::
  "env \<Rightarrow> 'a flockerClient_scheme \<Rightarrow> string \<Rightarrow> string \<Rightarrow> payload \<Rightarrow> request list
    \<Rightarrow> (error + response) \<times> request list" where
  "request E c method url payload sent =
     (case (if method = ''POST''
            then (case Marshal E payload of
                    Inl msg \<Rightarrow> Inl (LibraryError msg)
                  | Inr b \<Rightarrow> Inr b)
            else Inr [])
      of
        Inl err \<Rightarrow> (Inl err, sent)
      | Inr b \<Rightarrow>
          (case NewRequest E method url b of
             Inl err \<Rightarrow> (Inl err, sent)
           | Inr req \<Rightarrow> Do E (req\<lparr>ContentType := ''application/json''\<rparr>) sent))"

definition post ::
  "env \<Rightarrow> 'a flockerClient_scheme \<Rightarrow> string \<Rightarrow> payload \<Rightarrow> request list
    \<Rightarrow> (error + response) \<times> request list" where
  "post E c url payload sent = request E c ''POST'' url payload sent"

definition get ::
  "env \<Rightarrow> 'a flockerClient_scheme \<Rightarrow> string \<Rightarrow> request list
    \<Rightarrow> (error + response) \<times> request list" where
  "get E c url sent = request E c ''GET'' url NilPayload sent"

definition getURL :: "'a flockerClient_scheme \<Rightarrow> string \<Rightarrow> string" where
  "getURL c path =
     schema c @ ''://'' @ host c @ '':'' @ itoa (port c) @ ''/'' @ version c @ ''/'' @ path"

section \<open>Reading the state\<close>

text \<open>
  The loop \<open>for _, r := range configurations\<close> of \<open>findIDInConfigurationsPayload\<close>
  and of \<open>QueryDatasetIDFromName\<close>, with the return that follows it.
\<close>

fun rangeConfigurations :: "configurationPayload list \<Rightarrow> string \<Rightarrow> string \<times> error option" where
  "rangeConfigurations [] name = ([], Some errConfigurationNotFound)"
| "rangeConfigurations (r # rs) name =
     (if Name (Metadata r) = name then (configurationPayload.DatasetID r, None)
      else rangeConfigurations rs name)"

definition findIDInConfigurationsPayload ::
  "env \<Rightarrow> 'a flockerClient_scheme \<Rightarrow> string \<Rightarrow> string \<Rightarrow> string \<times> error option" where
  "findIDInConfigurationsPayload E c body name =
     (case DecodeConfigurations E body of
        Inr configurations \<Rightarrow> rangeConfigurations configurations name
      | Inl msg \<Rightarrow> ([], Some (LibraryError msg)))"

text \<open>
  The loop \<open>for _, s := range states\<close> of \<open>LookupPrimaryUUID\<close> and of
  \<open>findPrimaryUUID\<close>; \<open>addr\<close> is what the host of a node is compared with.
\<close>

fun rangeNodes :: "nodeStatePayload list \<Rightarrow> string \<Rightarrow> string \<times> error option" where
  "rangeNodes [] addr = ([], Some errStateNotFound)"
| "rangeNodes (s # ss) addr =
     (if Host s = addr then (UUID s, None) else rangeNodes ss addr)"

definition LookupPrimaryUUID ::
  "env \<Rightarrow> 'a Client_scheme \<Rightarrow> request list \<Rightarrow> (string \<times> error option) \<times> request list" where
  "LookupPrimaryUUID E c sent =
     (case get E c (getURL c ''state/nodes'') sent of
        (Inl err, sent') \<Rightarrow> (([], Some err), sent')
      | (Inr resp, sent') \<Rightarrow>
          (case DecodeNodes E (response.Body resp) of
             Inr states \<Rightarrow> (rangeNodes states (clientIP c), sent')
           | Inl msg \<Rightarrow> (([], Some (LibraryError msg)), sent')))"

definition findPrimaryUUID ::
  "env \<Rightarrow> 'a flockerClient_scheme \<Rightarrow> request list \<Rightarrow> (string \<times> error option) \<times> request list" where
  "findPrimaryUUID E c sent =
     (case get E c (getURL c ''state/nodes'') sent of
        (Inl err, sent') \<Rightarrow> (([], Some err), sent')
      | (Inr resp, sent') \<Rightarrow>
          (case DecodeNodes E (response.Body resp) of
             Inr states \<Rightarrow> (rangeNodes states (host c), sent')
           | Inl msg \<Rightarrow> (([], Some (LibraryError msg)), sent')))"

text \<open>
  The loop \<open>for _, s := range states\<close> of \<open>GetDatasetState\<close>: \<open>s.DatasetID\<close> reads
  through the embedded pointer and panics when it is nil.
\<close>

fun rangeStates ::
  "datasetStatePayload list \<Rightarrow> string \<Rightarrow> (datasetState option \<times> error option) outcome" where
  "rangeStates [] datasetID = Return (None, Some errStateNotFound)"
| "rangeStates (s # ss) datasetID =
     (case s of
        None \<Rightarrow> Panic
      | Some d \<Rightarrow>
          if datasetState.DatasetID d = datasetID then Return (Some d, None)
          else rangeStates ss datasetID)"

definition GetDatasetState ::
  "env \<Rightarrow> 'a flockerClient_scheme \<Rightarrow> string \<Rightarrow> request list
    \<Rightarrow> (datasetState option \<times> error option) outcome \<times> request list" where
  "GetDatasetState E c datasetID sent =
     (case get E c (getURL c ''state/datasets'') sent of
        (Inl err, sent') \<Rightarrow> (Return (None, Some err), sent')
      | (Inr resp, sent') \<Rightarrow>
          (case DecodeStates E (response.Body resp) of
             Inr states \<Rightarrow> (rangeStates states datasetID, sent')
           | Inl msg \<Rightarrow> (Return (None, Some (LibraryError msg)), sent')))"

definition QueryDatasetIDFromName ::
  "env \<Rightarrow> 'a Client_scheme \<Rightarrow> string \<Rightarrow> request list \<Rightarrow> (string \<times> error option) \<times> request list" where
  "QueryDatasetIDFromName E c v sent =
     (case get E c (getURL c ''configuration/datasets'') sent of
        (Inl err, sent') \<Rightarrow> (([], Some err), sent')
      | (Inr resp, sent') \<Rightarrow>
          (case DecodeConfigurations E (response.Body resp) of
             Inr configurations \<Rightarrow> (rangeConfigurations configurations v, sent')
           | Inl msg \<Rightarrow> (([], Some (LibraryError msg)), sent')))"

section \<open>Provisioning\<close>

text \<open>
  The loop \<open>for { ... }\<close> that ends both versions of \<open>CreateVolume\<close>. The
  \<open>err\<close> of \<open>if s, err := c.GetDatasetState(...)\<close> is declared by that \<open>if\<close> and is
  in scope in its branches only; the \<open>err\<close> that the \<open>select\<close> returns is the result
  parameter of \<open>CreateVolume\<close>, here the argument \<open>err\<close>. \<open>k\<close> counts the rounds.
  The loop need not end: \<open>None\<close> is a run that never returns.
\<close>

partial_function (option) waitForVolume ::
  "env \<Rightarrow> 'a flockerClient_scheme \<Rightarrow> string \<Rightarrow> error option \<Rightarrow> nat \<Rightarrow> request list
    \<Rightarrow> ((string \<times> error option) outcome \<times> request list) option" where
  "waitForVolume E c datasetID err k sent =
     (case GetDatasetState E c datasetID sent of
        (Panic, sent') \<Rightarrow> Some (Panic, sent')
      | (Return (s, None), sent') \<Rightarrow>
          (case s of
             None \<Rightarrow> Some (Panic, sent')
           | Some d \<Rightarrow> Some (Return (Path d, None), sent'))
      | (Return (s, Some err'), sent') \<Rightarrow>
          if err' \<noteq> errStateNotFound then Some (Return ([], Some err'), sent')
          else (case Select E k of
                  timeoutChan \<Rightarrow> Some (Return ([], err), sent')
                | tickChan \<Rightarrow> waitForVolume E c datasetID err (k + 1) sent'))"

text \<open>The list of the requests sent after \<open>n\<close> rounds of the loop.\<close>

primrec polled :: "env \<Rightarrow> 'a flockerClient_scheme \<Rightarrow> string \<Rightarrow> nat \<Rightarrow> request list \<Rightarrow> request list" where
  "polled E c datasetID 0 sent = sent"
| "polled E c datasetID (Suc n) sent =
     polled E c datasetID n (snd (GetDatasetState E c datasetID sent))"

text \<open>The request that a poll sends.\<close>

definition pollRequest :: "'a flockerClient_scheme \<Rightarrow> request" where
  "pollRequest c =
     \<lparr>Method = ''GET'', URL = getURL c ''state/datasets'',
      ContentType = ''application/json'', Body = []\<rparr>"

definition Client_CreateVolume ::
  "env \<Rightarrow> 'a Client_scheme \<Rightarrow> string \<Rightarrow> request list
    \<Rightarrow> ((string \<times> error option) outcome \<times> request list) option" where
  "Client_CreateVolume E c dir sent =
     (case LookupPrimaryUUID E c sent of
        ((_, Some err), sent1) \<Rightarrow> Some (Return ([], Some err), sent1)
      | ((primary, None), sent1) \<Rightarrow>
          (let payload = \<lparr>configurationPayload.Primary = primary,
                          DatasetID = [],
                          MaximumSize = maximumSize c,
                          Metadata = \<lparr>Name = dir\<rparr>\<rparr>
           in case post E c (getURL c ''configuration/datasets'') (ConfigurationPayload payload) sent1 of
                (Inl err, sent2) \<Rightarrow> Some (Return ([], Some err), sent2)
              | (Inr resp, sent2) \<Rightarrow>
                  if StatusCode resp = 409
                  then Some (Return ([], Some errVolumeAlreadyExists), sent2)
                  else if StatusCode resp \<ge> 300
                  then Some (Return ([], Some (Errorf
                         (''Expected: {1,2}xx creating the volume, got: '' @ itoa (StatusCode resp)))), sent2)
                  else (case DecodeConfiguration E (response.Body resp) of
                          Inl msg \<Rightarrow> Some (Return ([], Some (LibraryError msg)), sent2)
                        | Inr p \<Rightarrow>
                            waitForVolume E c (configurationPayload.DatasetID p) None 0 sent2)))"

definition flockerClient_CreateVolume ::
  "env \<Rightarrow> 'a flockerClient_scheme \<Rightarrow> string \<Rightarrow> request list
    \<Rightarrow> ((string \<times> error option) outcome \<times> request list) option" where
  "flockerClient_CreateVolume E c dir sent =
     (case findPrimaryUUID E c sent of
        ((_, Some err), sent1) \<Rightarrow> Some (Return ([], Some err), sent1)
      | ((primary, None), sent1) \<Rightarrow>
          (let datasetID = datasetIDFromName E dir;
               payload = \<lparr>configurationPayload.Primary = primary,
                          DatasetID = datasetID,
                          MaximumSize = maximumSize c,
                          Metadata = \<lparr>Name = dir\<rparr>\<rparr>
           in case post E c (getURL c ''configuration/datasets'') (ConfigurationPayload payload) sent1 of
                (Inl err, sent2) \<Rightarrow> Some (Return ([], Some err), sent2)
              | (Inr resp, sent2) \<Rightarrow>
                  if StatusCode resp = 409
                  then Some (Return ([], Some errVolumeAlreadyExists), sent2)
                  else if StatusCode resp \<ge> 300
                  then Some (Return ([], Some (Errorf
                         (''Expected: {1,2}xx creating the volume, got: '' @ itoa (StatusCode resp)))), sent2)
                  else waitForVolume E c datasetID None 0 sent2))"

text \<open>
  A run observed for \<open>n\<close> rounds of the polling loop at most, which is defined for
  every run, also one that never returns: what the loop has returned by then (\<open>None\<close>
  when it is still polling), and the requests sent by then. The rounds are those of
  \<open>waitForVolume\<close>, and \<open>CreateVolume\<close> up to the loop is as above.
\<close>

fun waitForVolume_rounds ::
  "nat \<Rightarrow> env \<Rightarrow> 'a flockerClient_scheme \<Rightarrow> string \<Rightarrow> error option \<Rightarrow> nat \<Rightarrow> request list
    \<Rightarrow> (string \<times> error option) outcome option \<times> request list" where
  "waitForVolume_rounds 0 E c datasetID err k sent = (None, sent)"
| "waitForVolume_rounds (Suc n) E c datasetID err k sent =
     (case GetDatasetState E c datasetID sent of
        (Panic, sent') \<Rightarrow> (Some Panic, sent')
      | (Return (s, None), sent') \<Rightarrow>
          (case s of
             None \<Rightarrow> (Some Panic, sent')
           | Some d \<Rightarrow> (Some (Return (Path d, None)), sent'))
      | (Return (s, Some err'), sent') \<Rightarrow>
          if err' \<noteq> errStateNotFound then (Some (Return ([], Some err')), sent')
          else (case Select E k of
                  timeoutChan \<Rightarrow> (Some (Return ([], err)), sent')
                | tickChan \<Rightarrow> waitForVolume_rounds n E c datasetID err (k + 1) sent'))"

definition Client_CreateVolume_rounds ::
  "nat \<Rightarrow> env \<Rightarrow> 'a Client_scheme \<Rightarrow> string \<Rightarrow> request list
    \<Rightarrow> (string \<times> error option) outcome option \<times> request list" where
  "Client_CreateVolume_rounds n E c dir sent =
     (case LookupPrimaryUUID E c sent of
        ((_, Some err), sent1) \<Rightarrow> (Some (Return ([], Some err)), sent1)
      | ((primary, None), sent1) \<Rightarrow>
          (let payload = \<lparr>configurationPayload.Primary = primary,
                          DatasetID = [],
                          MaximumSize = maximumSize c,
                          Metadata = \<lparr>Name = dir\<rparr>\<rparr>
           in case post E c (getURL c ''configuration/datasets'') (ConfigurationPayload payload) sent1 of
                (Inl err, sent2) \<Rightarrow> (Some (Return ([], Some err)), sent2)
              | (Inr resp, sent2) \<Rightarrow>
                  if StatusCode resp = 409
                  then (Some (Return ([], Some errVolumeAlreadyExists)), sent2)
                  else if StatusCode resp \<ge> 300
                  then (Some (Return ([], Some (Errorf
                         (''Expected: {1,2}xx creating the volume, got: '' @ itoa (StatusCode resp))))), sent2)
                  else (case DecodeConfiguration E (response.Body resp) of
                          Inl msg \<Rightarrow> (Some (Return ([], Some (LibraryError msg))), sent2)
                        | Inr p \<Rightarrow>
                            waitForVolume_rounds n E c (configurationPayload.DatasetID p) None 0 sent2)))"

definition flockerClient_CreateVolume_rounds ::
  "nat \<Rightarrow> env \<Rightarrow> 'a flockerClient_scheme \<Rightarrow> string \<Rightarrow> request list
    \<Rightarrow> (string \<times> error option) outcome option \<times> request list" where
  "flockerClient_CreateVolume_rounds n E c dir sent =
     (case findPrimaryUUID E c sent of
        ((_, Some err), sent1) \<Rightarrow> (Some (Return ([], Some err)), sent1)
      | ((primary, None), sent1) \<Rightarrow>
          (let datasetID = datasetIDFromName E dir;
               payload = \<lparr>configurationPayload.Primary = primary,
                          DatasetID = datasetID,
                          MaximumSize = maximumSize c,
                          Metadata = \<lparr>Name = dir\<rparr>\<rparr>
           in case post E c (getURL c ''configuration/datasets'') (ConfigurationPayload payload) sent1 of
                (Inl err, sent2) \<Rightarrow> (Some (Return ([], Some err)), sent2)
              | (Inr resp, sent2) \<Rightarrow>
                  if StatusCode resp = 409
                  then (Some (Return ([], Some errVolumeAlreadyExists)), sent2)
                  else if StatusCode resp \<ge> 300
                  then (Some (Return ([], Some (Errorf
                         (''Expected: {1,2}xx creating the volume, got: '' @ itoa (StatusCode resp))))), sent2)
                  else waitForVolume_rounds n E c datasetID None 0 sent2))"

text \<open>
  \<open>LookupVolume\<close> assigns to its result parameter \<open>err\<close> (\<open>s, err = ...\<close>) and
  switches on it. \<open>s.Path\<close> panics on a nil \<open>s\<close>.
\<close>

definition switchLookupVolume ::
  "(datasetState option \<times> error option) outcome \<Rightarrow> (string \<times> error option) outcome" where
  "switchLookupVolume r =
     (case r of
        Panic \<Rightarrow> Panic
      | Return (s, None) \<Rightarrow>
          (case s of None \<Rightarrow> Panic | Some d \<Rightarrow> Return (Path d, None))
      | Return (s, Some err) \<Rightarrow>
          if err = errStateNotFound then Return ([], Some errVolumeDoesNotExist)
          else Return ([], Some err))"

definition Client_LookupVolume ::
  "env \<Rightarrow> 'a Client_scheme \<Rightarrow> string \<Rightarrow> request list
    \<Rightarrow> (string \<times> error option) outcome \<times> request list" where
  "Client_LookupVolume E c dir sent =
     (case QueryDatasetIDFromName E c dir sent of
        ((_, Some err), sent1) \<Rightarrow> (Return ([], Some err), sent1)
      | ((datasetID, None), sent1) \<Rightarrow>
          (case GetDatasetState E c datasetID sent1 of
             (r, sent2) \<Rightarrow> (switchLookupVolume r, sent2)))"

definition flockerClient_LookupVolume ::
  "env \<Rightarrow> 'a flockerClient_scheme \<Rightarrow> string \<Rightarrow> request list
    \<Rightarrow> (string \<times> error option) outcome \<times> request list" where
  "flockerClient_LookupVolume E c dir sent =
     (let datasetID = datasetIDFromName E dir
      in case GetDatasetState E c datasetID sent of
           (r, sent1) \<Rightarrow> (switchLookupVolume r, sent1))"

definition Client_UpdateDatasetPrimary ::
  "env \<Rightarrow> 'a Client_scheme \<Rightarrow> string \<Rightarrow> string \<Rightarrow> request list
    \<Rightarrow> error option \<times> request list" where
  "Client_UpdateDatasetPrimary E c datasetID newPrimary sent =
     (let payload = PrimaryStruct newPrimary;
          url = getURL c (''configuration/datasets/'' @ datasetID)
      in case post E c url payload sent of
           (Inl err, sent1) \<Rightarrow> (Some err, sent1)
         | (Inr resp, sent1) \<Rightarrow>
             if StatusCode resp \<ge> 300 then (Some errUpdatingDataset, sent1)
             else (None, sent1))"

definition flockerClient_UpdateDatasetPrimary ::
  "env \<Rightarrow> 'a flockerClient_scheme \<Rightarrow> string \<Rightarrow> string \<Rightarrow> request list
    \<Rightarrow> error option \<times> request list" where
  "flockerClient_UpdateDatasetPrimary E c dir newPrimary sent =
     (let datasetID = datasetIDFromName E dir;
          payload = ConfigurationPayload
                      \<lparr>configurationPayload.Primary = newPrimary,
                       DatasetID = [],
                       MaximumSize = [],
                       Metadata = \<lparr>Name = []\<rparr>\<rparr>;
          url = getURL c (''configuration/datasets/'' @ datasetID)
      in case post E c url payload sent of
           (Inl err, sent1) \<Rightarrow> (Some err, sent1)
         | (Inr resp, sent1) \<Rightarrow>
             if StatusCode resp < 200 \<or> StatusCode resp \<ge> 300
             then (Some errUpdatingDataset, sent1)
             else (None, sent1))"

section \<open>Scenarios\<close>

text \<open>
  Concrete environments for the scenarios of the package's tests: a server that answers
  the requests with the replies of a list, in order, and with a transport error after
  them; a \<open>select\<close> that receives from the channels of a list, in order, and from
  \<open>timeoutChan\<close> after them; \<open>json.Marshal\<close> and the decoders on the bodies that
  the scenarios use; and for MD5 its digests of the namespace followed by the two
  names of \<open>TestDatasetIDFromName\<close>, \<open>hello\<close> and \<open>helloS4\<close> (in the test,
  \<open>hello\<close> followed by the octal escape of \<open>S\<close> and by \<open>4\<close>).
\<close>

definition testMD5 :: "8 word list \<Rightarrow> 8 word list" where
  "testMD5 data =
     (if data = NIL @ map of_char ''hello''
      then [0xa6, 0xc0, 0x42, 0x6f, 0xf9, 0xa3, 0x9b, 0x59,
            0x66, 0x2f, 0x48, 0x07, 0xc3, 0x82, 0xb7, 0x68]
      else if data = NIL @ map of_char ''helloS4''
      then [0x90, 0xa3, 0x88, 0xbf, 0xdf, 0xca, 0x69, 0x0f,
            0x41, 0x2a, 0x67, 0xae, 0xc0, 0xcd, 0x9f, 0x09]
      else replicate 16 0)"

definition testMarshal :: "payload \<Rightarrow> string + string" where
  \<open>testMarshal p =
     (case p of
        NilPayload \<Rightarrow> Inr ''null''
      | PrimaryStruct s \<Rightarrow> Inr (''{"Primary":"'' @ s @ ''"}'')
      | ConfigurationPayload r \<Rightarrow>
          Inr (''{"primary":"'' @ configurationPayload.Primary r @ ''"''
               @ (if configurationPayload.DatasetID r = [] then []
                  else '',"dataset_id":"'' @ configurationPayload.DatasetID r @ ''"'')
               @ (if configurationPayload.MaximumSize r = [] then []
                  else '',"maximum_size":'' @ configurationPayload.MaximumSize r)
               @ '',"metadata":{''
               @ (if Name (Metadata r) = [] then []
                  else ''"name":"'' @ Name (Metadata r) @ ''"'')
               @ ''}}''))\<close>

definition nodesBody :: string where
  \<open>nodesBody = ''[{"host": "127.0.0.1", "uuid": "A-B-C-D"}]''\<close>

definition noStatesBody :: string where
  \<open>noStatesBody = ''[]''\<close>

definition helloStatesBody :: string where
  \<open>helloStatesBody =
     ''[{"dataset_id": "a6c0426f-f9a3-4b59-a62f-4807c382b768", "path": "/flocker/hello"}]''\<close>

definition otherStatesBody :: string where
  \<open>otherStatesBody = ''[{"dataset_id": "1-2-3", "path": "/flocker/1-2-3"}]''\<close>

definition configurationsBody :: string where
  \<open>configurationsBody =
     ''[{"dataset_id": "1-2-3", "metadata": {"name": "test"}}, {"dataset_id": "The-42-id", "metadata": {"name": "search-for-this-name"}}]''\<close>

definition helloConfigurationBody :: string where
  \<open>helloConfigurationBody = ''{"dataset_id": "a6c0426f-f9a3-4b59-a62f-4807c382b768"}''\<close>

definition otherConfigurationBody :: string where
  \<open>otherConfigurationBody = ''{"dataset_id": "1-2-3"}''\<close>

definition testDecodeNodes :: "string \<Rightarrow> string + nodeStatePayload list" where
  "testDecodeNodes b =
     (if b = nodesBody then Inr [\<lparr>UUID = ''A-B-C-D'', Host = ''127.0.0.1''\<rparr>]
      else Inl ''invalid character'')"

definition testDecodeStates :: "string \<Rightarrow> string + datasetStatePayload list" where
  "testDecodeStates b =
     (if b = noStatesBody then Inr []
      else if b = helloStatesBody
      then Inr [Some \<lparr>Path = ''/flocker/hello'',
                      DatasetID = ''a6c0426f-f9a3-4b59-a62f-4807c382b768'',
                      Primary = [], MaximumSize = []\<rparr>]
      else if b = otherStatesBody
      then Inr [Some \<lparr>Path = ''/flocker/1-2-3'', DatasetID = ''1-2-3'',
                      Primary = [], MaximumSize = []\<rparr>]
      else Inl ''invalid character'')"

definition testConfigurations :: "configurationPayload list" where
  "testConfigurations =
     [\<lparr>configurationPayload.Primary = [], DatasetID = ''1-2-3'', MaximumSize = [],
        Metadata = \<lparr>Name = ''test''\<rparr>\<rparr>,
      \<lparr>configurationPayload.Primary = [], DatasetID = ''The-42-id'', MaximumSize = [],
        Metadata = \<lparr>Name = ''search-for-this-name''\<rparr>\<rparr>]"

definition testDecodeConfigurations :: "string \<Rightarrow> string + configurationPayload list" where
  "testDecodeConfigurations b =
     (if b = configurationsBody then Inr testConfigurations
      else Inl ''invalid character'')"

definition testDecodeConfiguration :: "string \<Rightarrow> string + configurationPayload" where
  "testDecodeConfiguration b =
     (if b = helloConfigurationBody
      then Inr \<lparr>configurationPayload.Primary = [],
                DatasetID = ''a6c0426f-f9a3-4b59-a62f-4807c382b768'',
                MaximumSize = [], Metadata = \<lparr>Name = []\<rparr>\<rparr>
      else if b = otherConfigurationBody
      then Inr \<lparr>configurationPayload.Primary = [], DatasetID = ''1-2-3'',
                MaximumSize = [], Metadata = \<lparr>Name = []\<rparr>\<rparr>
      else Inl ''EOF'')"

definition testEnv :: "(string + response) list \<Rightarrow> select_case list \<Rightarrow> env" where
  "testEnv replies selects =
     \<lparr>Marshal = testMarshal,
      NewRequestError = (\<lambda>method url. None),
      Reply = (\<lambda>n. if n < length replies then replies ! n else Inl ''EOF''),
      DecodeNodes = testDecodeNodes,
      DecodeStates = testDecodeStates,
      DecodeConfigurations = testDecodeConfigurations,
      DecodeConfiguration = testDecodeConfiguration,
      MD5 = testMD5,
      Select = (\<lambda>k. if k < length selects then selects ! k else timeoutChan)\<rparr>"

definition testClient :: Client where
  "testClient =
     \<lparr>schema = ''http'', host = ''127.0.0.1'', port = 4523, version = ''v1'',
      maximumSize = defaultVolumeSize, clientIP = ''127.0.0.1''\<rparr>"

text \<open>The bodies that \<open>testMarshal\<close> gives the payloads of the scenarios.\<close>

definition helloCreateBody :: string where
  \<open>helloCreateBody =
     ''{"primary":"A-B-C-D","dataset_id":"a6c0426f-f9a3-4b59-a62f-4807c382b768","maximum_size":107374182400,"metadata":{"name":"hello"}}''\<close>

definition helloCreateBodyNoID :: string where
  \<open>helloCreateBodyNoID =
     ''{"primary":"A-B-C-D","maximum_size":107374182400,"metadata":{"name":"hello"}}''\<close>

definition updateBody :: string where
  \<open>updateBody = ''{"primary":"A-B-C-D","metadata":{}}''\<close>

definition updateBodyStruct :: string where
  \<open>updateBodyStruct = ''{"Primary":"A-B-C-D"}''\<close>

text \<open>
  A reply of the server with a status and a body, and the requests that a client with
  the configuration of \<open>testClient\<close> sends.
\<close>

definition reply :: "int \<Rightarrow> string \<Rightarrow> string + response" where
  "reply code body = Inr \<lparr>StatusCode = code, Body = body\<rparr>"

definition sentGET :: "string \<Rightarrow> request" where
  "sentGET path =
     \<lparr>Method = ''GET'', URL = ''http://127.0.0.1:4523/v1/'' @ path,
      ContentType = ''application/json'', Body = []\<rparr>"

definition sentPOST :: "string \<Rightarrow> string \<Rightarrow> request" where
  "sentPOST path body =
     \<lparr>Method = ''POST'', URL = ''http://127.0.0.1:4523/v1/'' @ path,
      ContentType = ''application/json'', Body = body\<rparr>"

section \<open>The default size\<close>

text \<open>
  C9. The default volume size, read as a decimal number the way the package's test
  reads it, is a multiple of 1024.
\<close>

theorem defaultVolumeSize_multiple_of_1024:
  "\<exists>n. Atoi defaultVolumeSize = Some n \<and> n mod 1024 = 0"
  by (simp add: Atoi_def defaultVolumeSize_def digitVal_def)

section \<open>The identifier is a function of the name\<close>

lemma hexByte_length: "length (hexByte v) = 2"
  by (simp add: hexByte_def)

lemma hexEncode_length: "length (hexEncode src) = 2 * length src"
  by (induction src) (simp_all add: hexEncode_def hexByte_length)

lemma NewHash_length: "length (NewHash h space data vers) = 16"
  by (simp add: NewHash_def Let_def)

lemma UUID_String_length: "length uuid = 16 \<Longrightarrow> length (UUID_String uuid) = 36"
  by (simp add: UUID_String_def hexEncode_length)

lemma datasetIDFromName_length: "length (datasetIDFromName E v) = 36"
  by (simp add: datasetIDFromName_def Let_def UUID_String_length NewHash_length)

text \<open>The two cases of \<open>TestDatasetIDFromName\<close>.\<close>

lemma datasetIDFromName_hello:
  "datasetIDFromName (testEnv replies selects) ''hello'' = ''a6c0426f-f9a3-4b59-a62f-4807c382b768''"
  by (simp add: datasetIDFromName_def testEnv_def NIL_def NewHash_def Let_def testMD5_def
      UUID_String_def hexEncode_def hexByte_def)

lemma datasetIDFromName_helloS4:
  "datasetIDFromName (testEnv replies selects) ''helloS4'' = ''90a388bf-dfca-490f-812a-67aec0cd9f09''"
  by (simp add: datasetIDFromName_def testEnv_def NIL_def NewHash_def Let_def testMD5_def
      UUID_String_def hexEncode_def hexByte_def)

text \<open>
  C8. The identifier of a name has 36 characters, and it depends on the environment
  through the MD5 digest of the constant namespace followed by the name only: two
  evaluations in environments that agree on this digest (whatever the replies of the
  server and the timers are) give the same identifier.
\<close>

theorem datasetIDFromName_deterministic:
  "length (datasetIDFromName E v) = 36 \<and>
   (MD5 E' (NIL @ map of_char v) = MD5 E (NIL @ map of_char v)
      \<longrightarrow> datasetIDFromName E' v = datasetIDFromName E v)"
  by (simp add: datasetIDFromName_length) (simp add: datasetIDFromName_def NewHash_def)

theorem datasetIDFromName_deterministic_witness:
  "length (datasetIDFromName (testEnv [] []) ''hello'') = 36 \<and>
   datasetIDFromName (testEnv [Inl ''connection refused''] [tickChan]) ''hello''
     = datasetIDFromName (testEnv [] []) ''hello''"
  using datasetIDFromName_deterministic
    [of "testEnv [] []" "''hello''" "testEnv [Inl ''connection refused''] [tickChan]"]
  by (simp add: testEnv_def)

section \<open>Searching the decoded lists\<close>

lemma rangeConfigurations_find:
  "rangeConfigurations cfgs name =
     (case find (\<lambda>r. Name (Metadata r) = name) cfgs of
        Some r \<Rightarrow> (configurationPayload.DatasetID r, None)
      | None \<Rightarrow> ([], Some errConfigurationNotFound))"
  by (induction cfgs) simp_all

lemma rangeNodes_find:
  "rangeNodes states addr =
     (case find (\<lambda>s. Host s = addr) states of
        Some s \<Rightarrow> (UUID s, None)
      | None \<Rightarrow> ([], Some errStateNotFound))"
  by (induction states) simp_all

lemma find_first_index:
  assumes "k < length xs" and "P (xs ! k)" and "\<forall>j<k. \<not> P (xs ! j)"
  shows "find P xs = Some (xs ! k)"
  using assms by (auto simp: find_Some_iff)

lemma find_no_match:
  assumes "\<forall>x\<in>set xs. \<not> P x"
  shows "find P xs = None"
  using assms by (simp add: find_None_iff)

text \<open>
  C6. On a body that decodes to a list of configurations, the search returns the
  dataset identifier of the first entry, in list order, whose name is the requested one
  (the entry at \<open>k\<close> when no entry before \<open>k\<close> has the name), and fails with
  \<open>errConfigurationNotFound\<close> when no entry has the name; on a body that does not
  decode, it fails with the decoder's error.
\<close>

theorem findIDInConfigurationsPayload_search:
  "(DecodeConfigurations E body = Inr cfgs \<and> k < length cfgs
      \<and> Name (Metadata (cfgs ! k)) = name \<and> (\<forall>j<k. Name (Metadata (cfgs ! j)) \<noteq> name)
     \<longrightarrow> findIDInConfigurationsPayload E c body name
           = (configurationPayload.DatasetID (cfgs ! k), None))
   \<and> (DecodeConfigurations E body = Inr cfgs \<and> (\<forall>r\<in>set cfgs. Name (Metadata r) \<noteq> name)
     \<longrightarrow> findIDInConfigurationsPayload E c body name = ([], Some errConfigurationNotFound))
   \<and> (DecodeConfigurations E body = Inl msg
     \<longrightarrow> findIDInConfigurationsPayload E c body name = ([], Some (LibraryError msg)))"
proof (intro conjI impI)
  assume h: "DecodeConfigurations E body = Inr cfgs \<and> k < length cfgs
      \<and> Name (Metadata (cfgs ! k)) = name \<and> (\<forall>j<k. Name (Metadata (cfgs ! j)) \<noteq> name)"
  then have "find (\<lambda>r. Name (Metadata r) = name) cfgs = Some (cfgs ! k)"
    by (intro find_first_index) simp_all
  with h show "findIDInConfigurationsPayload E c body name
           = (configurationPayload.DatasetID (cfgs ! k), None)"
    by (simp add: findIDInConfigurationsPayload_def rangeConfigurations_find)
next
  assume h: "DecodeConfigurations E body = Inr cfgs \<and> (\<forall>r\<in>set cfgs. Name (Metadata r) \<noteq> name)"
  then have "find (\<lambda>r. Name (Metadata r) = name) cfgs = None"
    by (intro find_no_match) simp
  with h show "findIDInConfigurationsPayload E c body name = ([], Some errConfigurationNotFound)"
    by (simp add: findIDInConfigurationsPayload_def rangeConfigurations_find)
next
  assume "DecodeConfigurations E body = Inl msg"
  then show "findIDInConfigurationsPayload E c body name = ([], Some (LibraryError msg))"
    by (simp add: findIDInConfigurationsPayload_def)
qed

theorem findIDInConfigurationsPayload_search_witness:
  "findIDInConfigurationsPayload (testEnv [] []) testClient configurationsBody
      ''search-for-this-name'' = (''The-42-id'', None)
   \<and> findIDInConfigurationsPayload (testEnv [] []) testClient configurationsBody
      ''it will not be found'' = ([], Some errConfigurationNotFound)
   \<and> findIDInConfigurationsPayload (testEnv [] []) testClient ''invalid { json'' []
      = ([], Some (LibraryError ''invalid character''))"
  using
    findIDInConfigurationsPayload_search
      [of "testEnv [] []" configurationsBody testConfigurations 1
          "''search-for-this-name''" testClient]
    findIDInConfigurationsPayload_search
      [of "testEnv [] []" configurationsBody testConfigurations 0
          "''it will not be found''" testClient]
    findIDInConfigurationsPayload_search
      [of "testEnv [] []" "''invalid { json''" _ 0 "[]" testClient "''invalid character''"]
  by (simp add: testEnv_def testDecodeConfigurations_def testConfigurations_def
      configurationsBody_def)

lemma QueryDatasetIDFromName_search:
  assumes "get E c (getURL c ''configuration/datasets'') sent = (Inr resp, sent')"
  shows "QueryDatasetIDFromName E c v sent
           = (findIDInConfigurationsPayload E c (response.Body resp) v, sent')"
  using assms
  by (simp add: QueryDatasetIDFromName_def findIDInConfigurationsPayload_def split: sum.splits)

lemma QueryDatasetIDFromName_transport_error:
  assumes "get E c (getURL c ''configuration/datasets'') sent = (Inl err, sent')"
  shows "QueryDatasetIDFromName E c v sent = (([], Some err), sent')"
  using assms by (simp add: QueryDatasetIDFromName_def)

section \<open>Resolving the primary\<close>

text \<open>
  C3, as the code has it. \<open>Client.LookupPrimaryUUID\<close> returns the identifier of the
  first node of the decoded list whose host address is the \<open>clientIP\<close> of the client,
  and \<open>flockerClient.findPrimaryUUID\<close> that of the first node whose host address is
  the \<open>host\<close> of the client; both fail with \<open>errStateNotFound\<close> when the list has
  no such node, and hand back the error of the transport or of the decoder as it is.
\<close>

theorem primaryUUID_first_match:
  "LookupPrimaryUUID E c sent =
     (case get E c (getURL c ''state/nodes'') sent of
        (Inl err, sent') \<Rightarrow> (([], Some err), sent')
      | (Inr resp, sent') \<Rightarrow>
          (case DecodeNodes E (response.Body resp) of
             Inl msg \<Rightarrow> (([], Some (LibraryError msg)), sent')
           | Inr states \<Rightarrow>
               (case find (\<lambda>s. Host s = clientIP c) states of
                  Some s \<Rightarrow> ((UUID s, None), sent')
                | None \<Rightarrow> (([], Some errStateNotFound), sent'))))
   \<and> findPrimaryUUID E fc sent =
     (case get E fc (getURL fc ''state/nodes'') sent of
        (Inl err, sent') \<Rightarrow> (([], Some err), sent')
      | (Inr resp, sent') \<Rightarrow>
          (case DecodeNodes E (response.Body resp) of
             Inl msg \<Rightarrow> (([], Some (LibraryError msg)), sent')
           | Inr states \<Rightarrow>
               (case find (\<lambda>s. Host s = host fc) states of
                  Some s \<Rightarrow> ((UUID s, None), sent')
                | None \<Rightarrow> (([], Some errStateNotFound), sent'))))"
  by (simp add: LookupPrimaryUUID_def findPrimaryUUID_def rangeNodes_find
      split: prod.splits sum.splits option.splits)

subsection \<open>Running the scenarios\<close>

lemma get_testEnv:
  "get (testEnv replies selects) c url sent =
     ((if length sent < length replies
       then (case replies ! length sent of
               Inl msg \<Rightarrow> Inl (LibraryError msg)
             | Inr resp \<Rightarrow> Inr resp)
       else Inl (LibraryError ''EOF'')),
      sent @ [\<lparr>Method = ''GET'', URL = url, ContentType = ''application/json'',
               request.Body = []\<rparr>])"
  by (simp add: get_def request_def NewRequest_def Do_def testEnv_def)

lemma post_testEnv:
  "testMarshal payload = Inr b \<Longrightarrow>
   post (testEnv replies selects) c url payload sent =
     ((if length sent < length replies
       then (case replies ! length sent of
               Inl msg \<Rightarrow> Inl (LibraryError msg)
             | Inr resp \<Rightarrow> Inr resp)
       else Inl (LibraryError ''EOF'')),
      sent @ [\<lparr>Method = ''POST'', URL = url, ContentType = ''application/json'',
               request.Body = b\<rparr>])"
  by (simp add: post_def request_def NewRequest_def Do_def testEnv_def)

lemma getURL_testClient:
  "getURL (testClient\<lparr>clientIP := ip\<rparr>) path = ''http://127.0.0.1:4523/v1/'' @ path"
  "getURL testClient path = ''http://127.0.0.1:4523/v1/'' @ path"
  by (simp_all add: getURL_def testClient_def itoa_def utoa.simps)

lemma testEnv_simps:
  "DecodeNodes (testEnv replies selects) = testDecodeNodes"
  "DecodeStates (testEnv replies selects) = testDecodeStates"
  "DecodeConfigurations (testEnv replies selects) = testDecodeConfigurations"
  "DecodeConfiguration (testEnv replies selects) = testDecodeConfiguration"
  "Select (testEnv replies selects) k = (if k < length selects then selects ! k else timeoutChan)"
  by (simp_all add: testEnv_def)

text \<open>
  A \<open>Client\<close> whose \<open>host\<close> is \<open>127.0.0.1\<close> and whose \<open>clientIP\<close> is
  \<open>10.0.0.7\<close>, and a node list whose one node has the host \<open>127.0.0.1\<close>:
  \<open>LookupPrimaryUUID\<close> fails with \<open>errStateNotFound\<close>, although a node has the
  host that the client is configured with.
\<close>

theorem LookupPrimaryUUID_configured_host_counterexample:
  "DecodeNodes (testEnv [reply 200 nodesBody] []) nodesBody
      = Inr [\<lparr>UUID = ''A-B-C-D'', Host = ''127.0.0.1''\<rparr>]
   \<and> host (testClient\<lparr>clientIP := ''10.0.0.7''\<rparr>) = ''127.0.0.1''
   \<and> LookupPrimaryUUID (testEnv [reply 200 nodesBody] [])
        (testClient\<lparr>clientIP := ''10.0.0.7''\<rparr>) []
      = (([], Some errStateNotFound), [sentGET ''state/nodes''])"
  by (simp add: LookupPrimaryUUID_def get_testEnv getURL_testClient testEnv_simps
      testDecodeNodes_def reply_def sentGET_def)
     (simp add: testClient_def)

section \<open>Looking a volume up\<close>

text \<open>
  \<open>GetDatasetState\<close> hands back a state and no error, or no state and an error: the
  \<open>s.Path\<close> of its callers does not read through a nil pointer.
\<close>

lemma rangeStates_Return:
  "rangeStates states datasetID = Return (s, err) \<Longrightarrow>
     (err = None \<and> (\<exists>d. s = Some d \<and> Some d \<in> set states \<and> datasetState.DatasetID d = datasetID))
     \<or> (s = None \<and> err = Some errStateNotFound)"
  by (induction states) (auto split: option.splits if_splits)

lemma GetDatasetState_Return:
  "GetDatasetState E c datasetID sent = (Return (s, err), sent') \<Longrightarrow>
     (err = None \<and> (\<exists>d. s = Some d \<and> datasetState.DatasetID d = datasetID))
     \<or> (s = None \<and> err \<noteq> None)"
  by (auto simp: GetDatasetState_def split: prod.splits sum.splits dest: rangeStates_Return)

text \<open>
  C5. \<open>LookupVolume\<close> returns the path of the state when \<open>GetDatasetState\<close>
  succeeds, \<open>errVolumeDoesNotExist\<close> when it fails with \<open>errStateNotFound\<close>, and
  any other error as it is, in both versions; in \<open>Client.LookupVolume\<close> the
  identifier comes from \<open>QueryDatasetIDFromName\<close>, whose error is handed back as it
  is too.
\<close>

theorem LookupVolume_translates_StateNotFound:
  "(GetDatasetState E fc (datasetIDFromName E dir) sent = (Return (Some d, None), sent')
      \<longrightarrow> flockerClient_LookupVolume E fc dir sent = (Return (Path d, None), sent'))
   \<and> (GetDatasetState E fc (datasetIDFromName E dir) sent = (Return (s, Some errStateNotFound), sent')
      \<longrightarrow> flockerClient_LookupVolume E fc dir sent = (Return ([], Some errVolumeDoesNotExist), sent'))
   \<and> (GetDatasetState E fc (datasetIDFromName E dir) sent = (Return (s, Some err), sent')
        \<and> err \<noteq> errStateNotFound
      \<longrightarrow> flockerClient_LookupVolume E fc dir sent = (Return ([], Some err), sent'))
   \<and> (QueryDatasetIDFromName E c dir sent = ((x, Some err), sent1)
      \<longrightarrow> Client_LookupVolume E c dir sent = (Return ([], Some err), sent1))
   \<and> (QueryDatasetIDFromName E c dir sent = ((datasetID, None), sent1)
        \<and> GetDatasetState E c datasetID sent1 = (Return (Some d, None), sent')
      \<longrightarrow> Client_LookupVolume E c dir sent = (Return (Path d, None), sent'))
   \<and> (QueryDatasetIDFromName E c dir sent = ((datasetID, None), sent1)
        \<and> GetDatasetState E c datasetID sent1 = (Return (s, Some errStateNotFound), sent')
      \<longrightarrow> Client_LookupVolume E c dir sent = (Return ([], Some errVolumeDoesNotExist), sent'))
   \<and> (QueryDatasetIDFromName E c dir sent = ((datasetID, None), sent1)
        \<and> GetDatasetState E c datasetID sent1 = (Return (s, Some err), sent')
        \<and> err \<noteq> errStateNotFound
      \<longrightarrow> Client_LookupVolume E c dir sent = (Return ([], Some err), sent'))"
  by (simp add: flockerClient_LookupVolume_def Client_LookupVolume_def switchLookupVolume_def)

lemma GetDatasetState_testEnv:
  "GetDatasetState (testEnv replies selects) testClient datasetID sent =
     ((if length sent < length replies
       then (case replies ! length sent of
               Inl msg \<Rightarrow> Return (None, Some (LibraryError msg))
             | Inr resp \<Rightarrow>
                 (case testDecodeStates (response.Body resp) of
                    Inr states \<Rightarrow> rangeStates states datasetID
                  | Inl msg \<Rightarrow> Return (None, Some (LibraryError msg))))
       else Return (None, Some (LibraryError ''EOF''))),
      sent @ [sentGET ''state/datasets''])"
  by (simp add: GetDatasetState_def get_testEnv getURL_testClient testEnv_simps sentGET_def
      split: sum.splits)

lemma QueryDatasetIDFromName_testEnv:
  "QueryDatasetIDFromName (testEnv replies selects) testClient v sent =
     ((if length sent < length replies
       then (case replies ! length sent of
               Inl msg \<Rightarrow> ([], Some (LibraryError msg))
             | Inr resp \<Rightarrow>
                 (case testDecodeConfigurations (response.Body resp) of
                    Inr configurations \<Rightarrow> rangeConfigurations configurations v
                  | Inl msg \<Rightarrow> ([], Some (LibraryError msg))))
       else ([], Some (LibraryError ''EOF''))),
      sent @ [sentGET ''configuration/datasets''])"
  by (simp add: QueryDatasetIDFromName_def get_testEnv getURL_testClient testEnv_simps sentGET_def
      split: sum.splits)

lemma testDecode_simps:
  "testDecodeStates noStatesBody = Inr []"
  "testDecodeStates helloStatesBody =
     Inr [Some \<lparr>Path = ''/flocker/hello'',
                DatasetID = ''a6c0426f-f9a3-4b59-a62f-4807c382b768'',
                Primary = [], MaximumSize = []\<rparr>]"
  "testDecodeStates otherStatesBody =
     Inr [Some \<lparr>Path = ''/flocker/1-2-3'', DatasetID = ''1-2-3'',
                Primary = [], MaximumSize = []\<rparr>]"
  "testDecodeConfigurations configurationsBody = Inr testConfigurations"
  "testDecodeNodes nodesBody = Inr [\<lparr>UUID = ''A-B-C-D'', Host = ''127.0.0.1''\<rparr>]"
  "testDecodeConfiguration helloConfigurationBody =
     Inr \<lparr>configurationPayload.Primary = [],
          DatasetID = ''a6c0426f-f9a3-4b59-a62f-4807c382b768'',
          MaximumSize = [], Metadata = \<lparr>Name = []\<rparr>\<rparr>"
  "testDecodeConfiguration otherConfigurationBody =
     Inr \<lparr>configurationPayload.Primary = [], DatasetID = ''1-2-3'',
          MaximumSize = [], Metadata = \<lparr>Name = []\<rparr>\<rparr>"
  by (simp_all add: testDecodeStates_def testDecodeConfigurations_def testDecodeNodes_def
      testDecodeConfiguration_def noStatesBody_def helloStatesBody_def otherStatesBody_def
      helloConfigurationBody_def otherConfigurationBody_def)

theorem LookupVolume_translates_StateNotFound_witness:
  "flockerClient_LookupVolume (testEnv [reply 200 helloStatesBody] []) testClient ''hello'' []
      = (Return (''/flocker/hello'', None), [sentGET ''state/datasets''])
   \<and> flockerClient_LookupVolume (testEnv [reply 200 noStatesBody] []) testClient ''hello'' []
      = (Return ([], Some errVolumeDoesNotExist), [sentGET ''state/datasets''])
   \<and> flockerClient_LookupVolume (testEnv [] []) testClient ''hello'' []
      = (Return ([], Some (LibraryError ''EOF'')), [sentGET ''state/datasets''])
   \<and> Client_LookupVolume (testEnv [] []) testClient ''test'' []
      = (Return ([], Some (LibraryError ''EOF'')), [sentGET ''configuration/datasets''])
   \<and> Client_LookupVolume (testEnv [reply 200 configurationsBody, reply 200 otherStatesBody] [])
        testClient ''test'' []
      = (Return (''/flocker/1-2-3'', None),
         [sentGET ''configuration/datasets'', sentGET ''state/datasets''])
   \<and> Client_LookupVolume (testEnv [reply 200 configurationsBody, reply 200 noStatesBody] [])
        testClient ''test'' []
      = (Return ([], Some errVolumeDoesNotExist),
         [sentGET ''configuration/datasets'', sentGET ''state/datasets''])
   \<and> Client_LookupVolume (testEnv [reply 200 configurationsBody] []) testClient ''test'' []
      = (Return ([], Some (LibraryError ''EOF'')),
         [sentGET ''configuration/datasets'', sentGET ''state/datasets''])"
proof -
  let ?hello = "\<lparr>Path = ''/flocker/hello'',
                  DatasetID = ''a6c0426f-f9a3-4b59-a62f-4807c382b768'',
                  Primary = [], MaximumSize = []\<rparr>"
  let ?other = "\<lparr>Path = ''/flocker/1-2-3'', DatasetID = ''1-2-3'',
                  Primary = [], MaximumSize = []\<rparr>"
  note ev = GetDatasetState_testEnv QueryDatasetIDFromName_testEnv testDecode_simps
    datasetIDFromName_hello reply_def testConfigurations_def
  note w = LookupVolume_translates_StateNotFound
  have "flockerClient_LookupVolume (testEnv [reply 200 helloStatesBody] []) testClient ''hello'' []
      = (Return (''/flocker/hello'', None), [sentGET ''state/datasets''])"
    using w [where E = "testEnv [reply 200 helloStatesBody] []" and fc = testClient
        and dir = "''hello''" and sent = "[]" and d = ?hello
        and sent' = "[sentGET ''state/datasets'']",
        THEN conjunct1]
    by (simp add: ev)
  moreover
  have "flockerClient_LookupVolume (testEnv [reply 200 noStatesBody] []) testClient ''hello'' []
      = (Return ([], Some errVolumeDoesNotExist), [sentGET ''state/datasets''])"
    using w [where E = "testEnv [reply 200 noStatesBody] []" and fc = testClient
        and dir = "''hello''" and sent = "[]" and s = None
        and sent' = "[sentGET ''state/datasets'']",
        THEN conjunct2, THEN conjunct1]
    by (simp add: ev)
  moreover
  have "flockerClient_LookupVolume (testEnv [] []) testClient ''hello'' []
      = (Return ([], Some (LibraryError ''EOF'')), [sentGET ''state/datasets''])"
    using w [where E = "testEnv [] []" and fc = testClient
        and dir = "''hello''" and sent = "[]" and s = None and err = "LibraryError ''EOF''"
        and sent' = "[sentGET ''state/datasets'']",
        THEN conjunct2, THEN conjunct2, THEN conjunct1]
    by (simp add: ev)
  moreover
  have "Client_LookupVolume (testEnv [] []) testClient ''test'' []
      = (Return ([], Some (LibraryError ''EOF'')), [sentGET ''configuration/datasets''])"
    using w [where E = "testEnv [] []" and c = testClient
        and dir = "''test''" and sent = "[]" and x = "[]" and err = "LibraryError ''EOF''"
        and ?sent1.0 = "[sentGET ''configuration/datasets'']",
        THEN conjunct2, THEN conjunct2, THEN conjunct2, THEN conjunct1]
    by (simp add: ev)
  moreover
  have "Client_LookupVolume (testEnv [reply 200 configurationsBody, reply 200 otherStatesBody] [])
        testClient ''test'' []
      = (Return (''/flocker/1-2-3'', None),
         [sentGET ''configuration/datasets'', sentGET ''state/datasets''])"
    using w [where E = "testEnv [reply 200 configurationsBody, reply 200 otherStatesBody] []"
        and c = testClient and dir = "''test''" and sent = "[]" and datasetID = "''1-2-3''"
        and ?sent1.0 = "[sentGET ''configuration/datasets'']" and d = ?other
        and sent' = "[sentGET ''configuration/datasets'', sentGET ''state/datasets'']",
        THEN conjunct2, THEN conjunct2, THEN conjunct2, THEN conjunct2, THEN conjunct1]
    by (simp add: ev)
  moreover
  have "Client_LookupVolume (testEnv [reply 200 configurationsBody, reply 200 noStatesBody] [])
        testClient ''test'' []
      = (Return ([], Some errVolumeDoesNotExist),
         [sentGET ''configuration/datasets'', sentGET ''state/datasets''])"
    using w [where E = "testEnv [reply 200 configurationsBody, reply 200 noStatesBody] []"
        and c = testClient and dir = "''test''" and sent = "[]" and datasetID = "''1-2-3''"
        and ?sent1.0 = "[sentGET ''configuration/datasets'']" and s = None
        and sent' = "[sentGET ''configuration/datasets'', sentGET ''state/datasets'']",
        THEN conjunct2, THEN conjunct2, THEN conjunct2, THEN conjunct2, THEN conjunct2, THEN conjunct1]
    by (simp add: ev)
  moreover
  have "Client_LookupVolume (testEnv [reply 200 configurationsBody] []) testClient ''test'' []
      = (Return ([], Some (LibraryError ''EOF'')),
         [sentGET ''configuration/datasets'', sentGET ''state/datasets''])"
    using w [where E = "testEnv [reply 200 configurationsBody] []"
        and c = testClient and dir = "''test''" and sent = "[]" and datasetID = "''1-2-3''"
        and ?sent1.0 = "[sentGET ''configuration/datasets'']" and s = None
        and err = "LibraryError ''EOF''"
        and sent' = "[sentGET ''configuration/datasets'', sentGET ''state/datasets'']",
        THEN conjunct2, THEN conjunct2, THEN conjunct2, THEN conjunct2, THEN conjunct2, THEN conjunct2]
    by (simp add: ev)
  ultimately show ?thesis by blast
qed

section \<open>Creating a volume\<close>

lemma testMarshal_simps:
  "testMarshal (ConfigurationPayload
      \<lparr>configurationPayload.Primary = ''A-B-C-D'',
       DatasetID = ''a6c0426f-f9a3-4b59-a62f-4807c382b768'',
       MaximumSize = defaultVolumeSize, Metadata = \<lparr>Name = ''hello''\<rparr>\<rparr>) = Inr helloCreateBody"
  "testMarshal (ConfigurationPayload
      \<lparr>configurationPayload.Primary = ''A-B-C-D'', DatasetID = [],
       MaximumSize = defaultVolumeSize, Metadata = \<lparr>Name = ''hello''\<rparr>\<rparr>) = Inr helloCreateBodyNoID"
  "testMarshal (ConfigurationPayload
      \<lparr>configurationPayload.Primary = ''A-B-C-D'', DatasetID = [],
       MaximumSize = [], Metadata = \<lparr>Name = []\<rparr>\<rparr>) = Inr updateBody"
  "testMarshal (PrimaryStruct ''A-B-C-D'') = Inr updateBodyStruct"
  by (simp_all add: testMarshal_def helloCreateBody_def helloCreateBodyNoID_def updateBody_def
      updateBodyStruct_def defaultVolumeSize_def)

subsection \<open>One round of the polling loop\<close>

lemma waitForVolume_found:
  "GetDatasetState E c datasetID sent = (Return (Some d, None), sent') \<Longrightarrow>
   waitForVolume E c datasetID err k sent = Some (Return (Path d, None), sent')"
  by (subst waitForVolume.simps) simp

lemma waitForVolume_error:
  "GetDatasetState E c datasetID sent = (Return (s, Some err'), sent') \<Longrightarrow>
   err' \<noteq> errStateNotFound \<Longrightarrow>
   waitForVolume E c datasetID err k sent = Some (Return ([], Some err'), sent')"
  by (subst waitForVolume.simps) simp

lemma waitForVolume_timeoutChan:
  "GetDatasetState E c datasetID sent = (Return (s, Some errStateNotFound), sent') \<Longrightarrow>
   Select E k = timeoutChan \<Longrightarrow>
   waitForVolume E c datasetID err k sent = Some (Return ([], err), sent')"
  by (subst waitForVolume.simps) simp

lemma waitForVolume_tickChan:
  "GetDatasetState E c datasetID sent = (Return (s, Some errStateNotFound), sent') \<Longrightarrow>
   Select E k = tickChan \<Longrightarrow>
   waitForVolume E c datasetID err k sent = waitForVolume E c datasetID err (Suc k) sent'"
  by (subst waitForVolume.simps) simp

lemma waitForVolume_Panic:
  "GetDatasetState E c datasetID sent = (Panic, sent') \<Longrightarrow>
   waitForVolume E c datasetID err k sent = Some (Panic, sent')"
  by (subst waitForVolume.simps) simp

text \<open>
  A run of the polling loop in which the first \<open>n + 1\<close> polls find no state for the
  identifier, the first \<open>n\<close> \<open>select\<close>s receive a tick and the next one receives
  from the timeout channel: the loop ends there, after \<open>n + 1\<close> polls, and returns
  the empty path with the \<open>err\<close> of the function, not the \<open>errStateNotFound\<close> of the
  last poll.
\<close>

lemma waitForVolume_timeout:
  assumes "\<forall>j\<le>n. fst (GetDatasetState E c datasetID (polled E c datasetID j sent))
                     = Return (None, Some errStateNotFound)"
    and "\<forall>j<n. Select E (k + j) = tickChan"
    and "Select E (k + n) = timeoutChan"
  shows "waitForVolume E c datasetID err k sent
           = Some (Return ([], err), polled E c datasetID (Suc n) sent)"
  using assms
proof (induction n arbitrary: k sent)
  case 0
  then have "GetDatasetState E c datasetID sent
               = (Return (None, Some errStateNotFound), snd (GetDatasetState E c datasetID sent))"
    by (simp add: prod_eq_iff)
  with 0 show ?case
    by (simp add: waitForVolume_timeoutChan)
next
  case (Suc n)
  let ?sent' = "snd (GetDatasetState E c datasetID sent)"
  have step: "polled E c datasetID (Suc j) sent = polled E c datasetID j ?sent'" for j
    by simp
  from Suc.prems(1) have "fst (GetDatasetState E c datasetID (polled E c datasetID 0 sent))
                     = Return (None, Some errStateNotFound)"
    by blast
  then have first: "GetDatasetState E c datasetID sent = (Return (None, Some errStateNotFound), ?sent')"
    by (simp add: prod_eq_iff)
  from Suc.prems(2) have tick: "Select E k = tickChan"
    by (metis add.right_neutral zero_less_Suc)
  have a: "\<forall>j\<le>n. fst (GetDatasetState E c datasetID (polled E c datasetID j ?sent'))
                     = Return (None, Some errStateNotFound)"
    using Suc.prems(1) step by (metis Suc_le_mono)
  have b: "\<forall>j<n. Select E (Suc k + j) = tickChan"
    using Suc.prems(2) by (metis Suc_less_eq add_Suc_shift)
  have c: "Select E (Suc k + n) = timeoutChan"
    using Suc.prems(3) by simp
  have "waitForVolume E c datasetID err k sent = waitForVolume E c datasetID err (Suc k) ?sent'"
    using first tick by (rule waitForVolume_tickChan)
  also have "\<dots> = Some (Return ([], err), polled E c datasetID (Suc n) ?sent')"
    using a b c by (rule Suc.IH)
  finally show ?case
    by (simp only: step)
qed


text \<open>
  A run in which every poll finds no state for the identifier and every \<open>select\<close>
  receives a tick never returns: the loop ends through the timeout channel only.
\<close>

lemma waitForVolume_never_returns:
  assumes polls: "\<forall>j. fst (GetDatasetState E c datasetID (polled E c datasetID j sent))
                     = Return (None, Some errStateNotFound)"
    and ticks: "\<forall>j. Select E (k + j) = tickChan"
  shows "waitForVolume E c datasetID err k sent = None"
proof (rule ccontr)
  assume "waitForVolume E c datasetID err k sent \<noteq> None"
  then obtain y where y: "waitForVolume E c datasetID err k sent = Some y"
    by blast
  have "\<not> ((\<forall>j. fst (GetDatasetState E c datasetID (polled E c datasetID j sent))
                     = Return (None, Some errStateNotFound))
           \<and> (\<forall>j. Select E (k + j) = tickChan))"
  proof (rule waitForVolume.raw_induct
      [where P = "\<lambda>E c datasetID err k sent y.
          \<not> ((\<forall>j. fst (GetDatasetState E c datasetID (polled E c datasetID j sent))
                     = Return (None, Some errStateNotFound))
             \<and> (\<forall>j. Select E (k + j) = tickChan))",
       OF _ y], goal_cases)
    case (1 wfv E c datasetID err k sent y)
    show ?case
    proof
      assume h: "(\<forall>j. fst (GetDatasetState E c datasetID (polled E c datasetID j sent))
                     = Return (None, Some errStateNotFound))
             \<and> (\<forall>j. Select E (k + j) = tickChan)"
      obtain r sent' where g: "GetDatasetState E c datasetID sent = (r, sent')"
        by (cases "GetDatasetState E c datasetID sent")
      from h have "fst (GetDatasetState E c datasetID (polled E c datasetID 0 sent))
                     = Return (None, Some errStateNotFound)"
        by blast
      with g have first: "r = Return (None, Some errStateNotFound)"
        by simp
      from h have tick: "Select E k = tickChan"
        by (metis add.right_neutral)
      from 1(2) g first tick have rec: "wfv E c datasetID err (k + 1) sent' = Some y"
        by simp
      have "\<forall>j. fst (GetDatasetState E c datasetID (polled E c datasetID j sent'))
                     = Return (None, Some errStateNotFound)"
      proof
        fix j
        from h have "fst (GetDatasetState E c datasetID (polled E c datasetID (Suc j) sent))
                     = Return (None, Some errStateNotFound)"
          by blast
        with g show "fst (GetDatasetState E c datasetID (polled E c datasetID j sent'))
                     = Return (None, Some errStateNotFound)"
          by simp
      qed
      moreover have "\<forall>j. Select E (k + 1 + j) = tickChan"
      proof
        fix j
        from h have "Select E (k + Suc j) = tickChan"
          by blast
        then show "Select E (k + 1 + j) = tickChan"
          by simp
      qed
      ultimately show False
        using 1(1) [OF rec] by blast
    qed
  qed
  with polls ticks show False
    by blast
qed

text \<open>
  C1, as the code has it. When the creation request is answered with the status 409,
  both versions of \<open>CreateVolume\<close> return the empty string and
  \<open>errVolumeAlreadyExists\<close>, as step 3 of their doc comment says, and send nothing
  after the creation request.
\<close>

theorem CreateVolume_conflict_is_an_error:
  "(findPrimaryUUID E fc sent = ((primary, None), sent1)
      \<and> post E fc (getURL fc ''configuration/datasets'')
            (ConfigurationPayload
               \<lparr>configurationPayload.Primary = primary, DatasetID = datasetIDFromName E dir,
                MaximumSize = maximumSize fc, Metadata = \<lparr>Name = dir\<rparr>\<rparr>) sent1
          = (Inr resp, sent2)
      \<and> StatusCode resp = 409
     \<longrightarrow> flockerClient_CreateVolume E fc dir sent
           = Some (Return ([], Some errVolumeAlreadyExists), sent2))
   \<and> (LookupPrimaryUUID E c sent = ((primary, None), sent1)
      \<and> post E c (getURL c ''configuration/datasets'')
            (ConfigurationPayload
               \<lparr>configurationPayload.Primary = primary, DatasetID = [],
                MaximumSize = maximumSize c, Metadata = \<lparr>Name = dir\<rparr>\<rparr>) sent1
          = (Inr resp, sent2)
      \<and> StatusCode resp = 409
     \<longrightarrow> Client_CreateVolume E c dir sent
           = Some (Return ([], Some errVolumeAlreadyExists), sent2))"
  by (simp add: flockerClient_CreateVolume_def Client_CreateVolume_def Let_def)

lemma post_testClient:
  "testMarshal payload = Inr b \<Longrightarrow> length sent < length replies \<Longrightarrow>
   replies ! length sent = reply code body \<Longrightarrow>
   post (testEnv replies selects) testClient (getURL testClient path) payload sent =
     (Inr \<lparr>StatusCode = code, Body = body\<rparr>, sent @ [sentPOST path b])"
  by (simp add: post_testEnv reply_def getURL_testClient sentPOST_def)

lemma primaryUUID_testEnv:
  "findPrimaryUUID (testEnv (reply 200 nodesBody # replies) selects) testClient []
     = ((''A-B-C-D'', None), [sentGET ''state/nodes''])"
  "LookupPrimaryUUID (testEnv (reply 200 nodesBody # replies) selects) testClient []
     = ((''A-B-C-D'', None), [sentGET ''state/nodes''])"
  by (simp_all add: findPrimaryUUID_def LookupPrimaryUUID_def get_testEnv getURL_testClient
      testEnv_simps testDecode_simps reply_def sentGET_def)
     (simp_all add: testClient_def)

lemma maximumSize_testClient: "maximumSize testClient = defaultVolumeSize"
  by (simp add: testClient_def)

theorem CreateVolume_conflict_is_an_error_witness:
  "flockerClient_CreateVolume (testEnv [reply 200 nodesBody, reply 409 []] []) testClient ''hello'' []
     = Some (Return ([], Some errVolumeAlreadyExists),
             [sentGET ''state/nodes'', sentPOST ''configuration/datasets'' helloCreateBody])
   \<and> Client_CreateVolume (testEnv [reply 200 nodesBody, reply 409 []] []) testClient ''hello'' []
     = Some (Return ([], Some errVolumeAlreadyExists),
             [sentGET ''state/nodes'', sentPOST ''configuration/datasets'' helloCreateBodyNoID])"
proof -
  let ?E = "testEnv [reply 200 nodesBody, reply 409 []] []"
  note w = CreateVolume_conflict_is_an_error
    [where E = ?E and sent = "[]" and primary = "''A-B-C-D''"
       and ?sent1.0 = "[sentGET ''state/nodes'']" and dir = "''hello''"
       and resp = "\<lparr>StatusCode = 409, Body = []\<rparr>"]
  have "flockerClient_CreateVolume ?E testClient ''hello'' []
     = Some (Return ([], Some errVolumeAlreadyExists),
             [sentGET ''state/nodes'', sentPOST ''configuration/datasets'' helloCreateBody])"
    using w [where fc = testClient
        and ?sent2.0 = "[sentGET ''state/nodes'', sentPOST ''configuration/datasets'' helloCreateBody]",
        THEN conjunct1]
    by (simp add: primaryUUID_testEnv datasetIDFromName_hello maximumSize_testClient
        post_testClient [OF testMarshal_simps(1)])
  moreover
  have "Client_CreateVolume ?E testClient ''hello'' []
     = Some (Return ([], Some errVolumeAlreadyExists),
             [sentGET ''state/nodes'', sentPOST ''configuration/datasets'' helloCreateBodyNoID])"
    using w [where c = testClient
        and ?sent2.0 = "[sentGET ''state/nodes'', sentPOST ''configuration/datasets'' helloCreateBodyNoID]",
        THEN conjunct2]
    by (simp add: primaryUUID_testEnv maximumSize_testClient
        post_testClient [OF testMarshal_simps(2)])
  ultimately show ?thesis by blast
qed


text \<open>
  In the scenario of \<open>TestCreateVolumeThatAlreadyExists\<close>, for the name \<open>hello\<close>,
  both versions return \<open>errVolumeAlreadyExists\<close> and the empty string, not the
  identifier computed from the name with no error.
\<close>

theorem CreateVolume_conflict_counterexample:
  "map_option fst
     (flockerClient_CreateVolume (testEnv [reply 200 nodesBody, reply 409 []] []) testClient
        ''hello'' [])
     = Some (Return ([], Some errVolumeAlreadyExists))
   \<and> map_option fst
     (Client_CreateVolume (testEnv [reply 200 nodesBody, reply 409 []] []) testClient
        ''hello'' [])
     = Some (Return ([], Some errVolumeAlreadyExists))
   \<and> Return ([], Some errVolumeAlreadyExists)
     \<noteq> Return (datasetIDFromName (testEnv [reply 200 nodesBody, reply 409 []] []) ''hello'', None)"
  by (simp add: flockerClient_CreateVolume_def Client_CreateVolume_def primaryUUID_testEnv
      datasetIDFromName_hello maximumSize_testClient
      post_testClient [OF testMarshal_simps(1)] post_testClient [OF testMarshal_simps(2)])

lemma polled_testEnv:
  "polled (testEnv replies selects) testClient datasetID n sent
     = sent @ replicate n (sentGET ''state/datasets'')"
  by (induction n arbitrary: sent)
     (simp_all add: GetDatasetState_testEnv replicate_app_Cons_same)

lemma all_le_2: "(\<forall>j\<le>Suc (Suc 0). P j) = (P 0 \<and> P (Suc 0) \<and> P (Suc (Suc 0)))"
  by (auto simp: le_Suc_eq)

lemma all_less_2: "(\<forall>j<Suc (Suc 0). P j) = (P 0 \<and> P (Suc 0))"
  by (auto simp: less_Suc_eq)

text \<open>
  C2. A run of \<open>CreateVolume\<close> in which the lookup of the primary and the creation
  request go through, the first \<open>n + 1\<close> polls find no state for the identifier, the
  first \<open>n\<close> \<open>select\<close>s receive a tick and the next one receives from the timeout
  channel: \<open>CreateVolume\<close> returns after that poll, and it returns the empty path and
  no error, in both versions. The \<open>err\<close> that \<open>return "", err\<close> reads is the result
  parameter, which is nil once the creation request went through; the
  \<open>errStateNotFound\<close> of the last poll is out of scope there.
\<close>

theorem CreateVolume_timeout_returns_no_error:
  "(findPrimaryUUID E fc sent = ((primary, None), sent1)
      \<and> post E fc (getURL fc ''configuration/datasets'')
            (ConfigurationPayload
               \<lparr>configurationPayload.Primary = primary, DatasetID = datasetIDFromName E dir,
                MaximumSize = maximumSize fc, Metadata = \<lparr>Name = dir\<rparr>\<rparr>) sent1
          = (Inr resp, sent2)
      \<and> StatusCode resp \<noteq> 409 \<and> StatusCode resp < 300
      \<and> (\<forall>j\<le>n. fst (GetDatasetState E fc (datasetIDFromName E dir)
                        (polled E fc (datasetIDFromName E dir) j sent2))
                   = Return (None, Some errStateNotFound))
      \<and> (\<forall>j<n. Select E j = tickChan) \<and> Select E n = timeoutChan
     \<longrightarrow> flockerClient_CreateVolume E fc dir sent
           = Some (Return ([], None), polled E fc (datasetIDFromName E dir) (Suc n) sent2))
   \<and> (LookupPrimaryUUID E c sent = ((primary, None), sent1)
      \<and> post E c (getURL c ''configuration/datasets'')
            (ConfigurationPayload
               \<lparr>configurationPayload.Primary = primary, DatasetID = [],
                MaximumSize = maximumSize c, Metadata = \<lparr>Name = dir\<rparr>\<rparr>) sent1
          = (Inr resp, sent2)
      \<and> StatusCode resp \<noteq> 409 \<and> StatusCode resp < 300
      \<and> DecodeConfiguration E (response.Body resp) = Inr p
      \<and> (\<forall>j\<le>n. fst (GetDatasetState E c (configurationPayload.DatasetID p)
                        (polled E c (configurationPayload.DatasetID p) j sent2))
                   = Return (None, Some errStateNotFound))
      \<and> (\<forall>j<n. Select E j = tickChan) \<and> Select E n = timeoutChan
     \<longrightarrow> Client_CreateVolume E c dir sent
           = Some (Return ([], None), polled E c (configurationPayload.DatasetID p) (Suc n) sent2))"
proof (intro conjI impI)
  assume h: "findPrimaryUUID E fc sent = ((primary, None), sent1)
      \<and> post E fc (getURL fc ''configuration/datasets'')
            (ConfigurationPayload
               \<lparr>configurationPayload.Primary = primary, DatasetID = datasetIDFromName E dir,
                MaximumSize = maximumSize fc, Metadata = \<lparr>Name = dir\<rparr>\<rparr>) sent1
          = (Inr resp, sent2)
      \<and> StatusCode resp \<noteq> 409 \<and> StatusCode resp < 300
      \<and> (\<forall>j\<le>n. fst (GetDatasetState E fc (datasetIDFromName E dir)
                        (polled E fc (datasetIDFromName E dir) j sent2))
                   = Return (None, Some errStateNotFound))
      \<and> (\<forall>j<n. Select E j = tickChan) \<and> Select E n = timeoutChan"
  then have "waitForVolume E fc (datasetIDFromName E dir) None 0 sent2
           = Some (Return ([], None), polled E fc (datasetIDFromName E dir) (Suc n) sent2)"
    by (intro waitForVolume_timeout) simp_all
  with h show "flockerClient_CreateVolume E fc dir sent
           = Some (Return ([], None), polled E fc (datasetIDFromName E dir) (Suc n) sent2)"
    by (simp add: flockerClient_CreateVolume_def Let_def)
next
  assume h: "LookupPrimaryUUID E c sent = ((primary, None), sent1)
      \<and> post E c (getURL c ''configuration/datasets'')
            (ConfigurationPayload
               \<lparr>configurationPayload.Primary = primary, DatasetID = [],
                MaximumSize = maximumSize c, Metadata = \<lparr>Name = dir\<rparr>\<rparr>) sent1
          = (Inr resp, sent2)
      \<and> StatusCode resp \<noteq> 409 \<and> StatusCode resp < 300
      \<and> DecodeConfiguration E (response.Body resp) = Inr p
      \<and> (\<forall>j\<le>n. fst (GetDatasetState E c (configurationPayload.DatasetID p)
                        (polled E c (configurationPayload.DatasetID p) j sent2))
                   = Return (None, Some errStateNotFound))
      \<and> (\<forall>j<n. Select E j = tickChan) \<and> Select E n = timeoutChan"
  then have "waitForVolume E c (configurationPayload.DatasetID p) None 0 sent2
           = Some (Return ([], None), polled E c (configurationPayload.DatasetID p) (Suc n) sent2)"
    by (intro waitForVolume_timeout) simp_all
  with h show "Client_CreateVolume E c dir sent
           = Some (Return ([], None), polled E c (configurationPayload.DatasetID p) (Suc n) sent2)"
    by (simp add: Client_CreateVolume_def Let_def)
qed

theorem CreateVolume_timeout_returns_no_error_witness:
  "flockerClient_CreateVolume
     (testEnv [reply 200 nodesBody, reply 200 helloConfigurationBody,
               reply 200 noStatesBody, reply 200 noStatesBody, reply 200 noStatesBody]
              [tickChan, tickChan, timeoutChan])
     testClient ''hello'' []
     = Some (Return ([], None),
             [sentGET ''state/nodes'', sentPOST ''configuration/datasets'' helloCreateBody,
              sentGET ''state/datasets'', sentGET ''state/datasets'', sentGET ''state/datasets''])
   \<and> Client_CreateVolume
     (testEnv [reply 200 nodesBody, reply 200 helloConfigurationBody,
               reply 200 noStatesBody, reply 200 noStatesBody, reply 200 noStatesBody]
              [tickChan, tickChan, timeoutChan])
     testClient ''hello'' []
     = Some (Return ([], None),
             [sentGET ''state/nodes'', sentPOST ''configuration/datasets'' helloCreateBodyNoID,
              sentGET ''state/datasets'', sentGET ''state/datasets'', sentGET ''state/datasets''])"
proof -
  let ?E = "testEnv [reply 200 nodesBody, reply 200 helloConfigurationBody,
               reply 200 noStatesBody, reply 200 noStatesBody, reply 200 noStatesBody]
              [tickChan, tickChan, timeoutChan]"
  let ?id = "''a6c0426f-f9a3-4b59-a62f-4807c382b768''"
  note w = CreateVolume_timeout_returns_no_error
    [where E = ?E and sent = "[]" and primary = "''A-B-C-D''" and dir = "''hello''"
       and ?sent1.0 = "[sentGET ''state/nodes'']" and n = "Suc (Suc 0)"
       and resp = "\<lparr>StatusCode = 200, Body = helloConfigurationBody\<rparr>"]
  note ev = primaryUUID_testEnv datasetIDFromName_hello maximumSize_testClient
    all_le_2 all_less_2 polled_testEnv GetDatasetState_testEnv testEnv_simps
    testDecode_simps
  have "flockerClient_CreateVolume ?E testClient ''hello'' []
     = Some (Return ([], None),
             [sentGET ''state/nodes'', sentPOST ''configuration/datasets'' helloCreateBody,
              sentGET ''state/datasets'', sentGET ''state/datasets'', sentGET ''state/datasets''])"
    using w [where fc = testClient
        and ?sent2.0 = "[sentGET ''state/nodes'', sentPOST ''configuration/datasets'' helloCreateBody]",
        THEN conjunct1]
    by (simp add: ev post_testClient [OF testMarshal_simps(1)]) (simp add: reply_def testDecode_simps)
  moreover
  have "Client_CreateVolume ?E testClient ''hello'' []
     = Some (Return ([], None),
             [sentGET ''state/nodes'', sentPOST ''configuration/datasets'' helloCreateBodyNoID,
              sentGET ''state/datasets'', sentGET ''state/datasets'', sentGET ''state/datasets''])"
    using w [where c = testClient
        and ?sent2.0 = "[sentGET ''state/nodes'', sentPOST ''configuration/datasets'' helloCreateBodyNoID]"
        and p = "\<lparr>configurationPayload.Primary = [],
                   DatasetID = ''a6c0426f-f9a3-4b59-a62f-4807c382b768'',
                   MaximumSize = [], Metadata = \<lparr>Name = []\<rparr>\<rparr>",
        THEN conjunct2]
    by (simp add: ev post_testClient [OF testMarshal_simps(2)]) (simp add: reply_def testDecode_simps)
  ultimately show ?thesis by blast
qed

section \<open>Updating the primary\<close>

text \<open>
  \<open>flockerClient.UpdateDatasetPrimary\<close> fails with \<open>errUpdatingDataset\<close> on every
  status outside \<open>[200, 300)\<close>, and sends one request at most.
\<close>

lemma post_sends_at_most_one:
  "post E c url payload sent = (r, sent') \<Longrightarrow> sent' = sent \<or> (\<exists>req. sent' = sent @ [req])"
  by (auto simp: post_def request_def Do_def split: sum.splits if_splits)

lemma flockerClient_UpdateDatasetPrimary_status:
  assumes "post E c (getURL c (''configuration/datasets/'' @ datasetIDFromName E dir))
             (ConfigurationPayload \<lparr>configurationPayload.Primary = newPrimary, DatasetID = [],
                MaximumSize = [], Metadata = \<lparr>Name = []\<rparr>\<rparr>) sent = (Inr resp, sent')"
  shows "flockerClient_UpdateDatasetPrimary E c dir newPrimary sent =
           (if 200 \<le> StatusCode resp \<and> StatusCode resp < 300 then None
            else Some errUpdatingDataset, sent')"
  using assms by (auto simp: flockerClient_UpdateDatasetPrimary_def Let_def)

lemma flockerClient_UpdateDatasetPrimary_sends_at_most_one:
  "flockerClient_UpdateDatasetPrimary E c dir newPrimary sent = (r, sent') \<Longrightarrow>
   sent' = sent \<or> (\<exists>req. sent' = sent @ [req])"
  by (auto simp: flockerClient_UpdateDatasetPrimary_def Let_def
      split: prod.splits sum.splits if_splits dest: post_sends_at_most_one)

text \<open>
  C7. \<open>Client.UpdateDatasetPrimary\<close> tests \<open>resp.StatusCode >= 300\<close> only: it
  returns no error on every status below 300, also on one below 200, where
  \<open>flockerClient.UpdateDatasetPrimary\<close> fails.
\<close>

theorem Client_UpdateDatasetPrimary_accepts_below_200:
  assumes "post E c (getURL c (''configuration/datasets/'' @ datasetID))
             (PrimaryStruct newPrimary) sent = (Inr resp, sent')"
  shows "Client_UpdateDatasetPrimary E c datasetID newPrimary sent =
           (if StatusCode resp < 300 then None else Some errUpdatingDataset, sent')"
  using assms by (auto simp: Client_UpdateDatasetPrimary_def Let_def)

theorem Client_UpdateDatasetPrimary_accepts_below_200_witness:
  "Client_UpdateDatasetPrimary (testEnv [reply 101 []] []) testClient ''1-2-3'' ''A-B-C-D'' []
     = (None, [sentPOST ''configuration/datasets/1-2-3'' updateBodyStruct])"
  using Client_UpdateDatasetPrimary_accepts_below_200
    [where E = "testEnv [reply 101 []] []" and c = testClient and datasetID = "''1-2-3''"
       and newPrimary = "''A-B-C-D''" and sent = "[]"
       and resp = "\<lparr>StatusCode = 101, Body = []\<rparr>"
       and sent' = "[sentPOST ''configuration/datasets/1-2-3'' updateBodyStruct]"]
  by (simp add: post_testClient [OF testMarshal_simps(4)])

lemma flockerClient_UpdateDatasetPrimary_101:
  "flockerClient_UpdateDatasetPrimary (testEnv [reply 101 []] []) testClient ''hello'' ''A-B-C-D'' []
     = (Some errUpdatingDataset,
        [sentPOST ''configuration/datasets/a6c0426f-f9a3-4b59-a62f-4807c382b768'' updateBody])"
  by (simp add: flockerClient_UpdateDatasetPrimary_def datasetIDFromName_hello
      post_testClient [OF testMarshal_simps(3)])

section \<open>The requests of a run\<close>

text \<open>
  A poll sends one request at most, and the loop sends polls only. What a poll and the
  loop return depends on the requests sent before through their number only.
\<close>

lemma GetDatasetState_sent:
  "GetDatasetState E c datasetID sent = (r, sent') \<Longrightarrow>
   sent' = sent \<or> sent' = sent @ [pollRequest c]"
  by (auto simp: GetDatasetState_def get_def request_def NewRequest_def Do_def pollRequest_def
      split: prod.splits sum.splits option.splits)

lemma waitForVolume_sent:
  assumes "waitForVolume E c datasetID err k sent = Some y"
  shows "\<exists>n. snd y = sent @ replicate n (pollRequest c)"
proof (rule waitForVolume.raw_induct
    [where P = "\<lambda>E c datasetID err k sent y. \<exists>n. snd y = sent @ replicate n (pollRequest c)",
     OF _ assms], goal_cases)
  case (1 wfv E c datasetID err k sent y)
  obtain r sent' where g: "GetDatasetState E c datasetID sent = (r, sent')"
    by (cases "GetDatasetState E c datasetID sent")
  from GetDatasetState_sent [OF g]
  obtain m where m: "sent' = sent @ replicate m (pollRequest c)"
    by (metis append_Nil2 replicate_0 replicate.simps(2))
  show ?case
  proof (cases "\<exists>s. r = Return (s, Some errStateNotFound) \<and> Select E k = tickChan")
    case True
    then obtain s where "r = Return (s, Some errStateNotFound)" and "Select E k = tickChan"
      by blast
    with 1(2) g have "wfv E c datasetID err (k + 1) sent' = Some y"
      by simp
    from 1(1) [OF this] obtain n where "snd y = sent' @ replicate n (pollRequest c)"
      by blast
    with m have "snd y = sent @ replicate (m + n) (pollRequest c)"
      by (simp add: replicate_add)
    then show ?thesis by blast
  next
    case False
    with 1(2) g have "snd y = sent'"
      by (auto split: outcome.splits option.splits if_splits select_case.splits)
    with m show ?thesis by blast
  qed
qed

lemma GetDatasetState_length:
  assumes "length s = length s'"
  shows "fst (GetDatasetState E c datasetID s) = fst (GetDatasetState E c datasetID s')
         \<and> length (snd (GetDatasetState E c datasetID s))
             = length (snd (GetDatasetState E c datasetID s'))"
  using assms
  by (auto simp: GetDatasetState_def get_def request_def NewRequest_def Do_def
      split: prod.splits sum.splits option.splits)

lemma waitForVolume_length_le:
  assumes "waitForVolume E c datasetID err k s = Some y"
  shows "\<forall>s'. length s' = length s \<longrightarrow>
           (\<exists>t'. waitForVolume E c datasetID err k s' = Some (fst y, t')
                 \<and> length t' = length (snd y))"
proof (rule waitForVolume.raw_induct
    [where P = "\<lambda>E c datasetID err k s y. \<forall>s'. length s' = length s \<longrightarrow>
           (\<exists>t'. waitForVolume E c datasetID err k s' = Some (fst y, t')
                 \<and> length t' = length (snd y))",
     OF _ assms], goal_cases)
  case (1 wfv E c datasetID err k s y)
  show ?case
  proof (intro allI impI)
    fix s' :: "request list"
    assume len: "length s' = length s"
    obtain r t where g: "GetDatasetState E c datasetID s = (r, t)"
      by (cases "GetDatasetState E c datasetID s")
    obtain r' t' where g': "GetDatasetState E c datasetID s' = (r', t')"
      by (cases "GetDatasetState E c datasetID s'")
    from GetDatasetState_length [OF len, of E c datasetID] g g'
    have eq: "r' = r" "length t' = length t"
      by simp_all
    show "\<exists>t'. waitForVolume E c datasetID err k s' = Some (fst y, t')
                 \<and> length t' = length (snd y)"
    proof (cases "\<exists>x. r = Return (x, Some errStateNotFound) \<and> Select E k = tickChan")
      case True
      then obtain x where r: "r = Return (x, Some errStateNotFound)"
        and tick: "Select E k = tickChan"
        by blast
      with 1(2) g have "wfv E c datasetID err (k + 1) t = Some y"
        by simp
      from 1(1) [OF this] eq(2)
      obtain u where "waitForVolume E c datasetID err (k + 1) t' = Some (fst y, u)"
        and "length u = length (snd y)"
        by blast
      moreover
      have "waitForVolume E c datasetID err k s' = waitForVolume E c datasetID err (Suc k) t'"
        using g' eq(1) r tick by (intro waitForVolume_tickChan) simp_all
      ultimately show ?thesis by auto
    next
      case False
      with 1(2) g have y: "Some y = (case r of
          Panic \<Rightarrow> Some (Panic, t)
        | Return (x, None) \<Rightarrow>
            (case x of None \<Rightarrow> Some (Panic, t) | Some d \<Rightarrow> Some (Return (Path d, None), t))
        | Return (x, Some e) \<Rightarrow>
            if e \<noteq> errStateNotFound then Some (Return ([], Some e), t)
            else Some (Return ([], err), t))"
        by (auto split: outcome.splits option.splits if_splits select_case.splits)
      have "waitForVolume E c datasetID err k s' = (case r of
          Panic \<Rightarrow> Some (Panic, t')
        | Return (x, None) \<Rightarrow>
            (case x of None \<Rightarrow> Some (Panic, t') | Some d \<Rightarrow> Some (Return (Path d, None), t'))
        | Return (x, Some e) \<Rightarrow>
            if e \<noteq> errStateNotFound then Some (Return ([], Some e), t')
            else Some (Return ([], err), t'))"
        using False g' eq(1)
        by (subst waitForVolume.simps)
           (auto split: outcome.splits option.splits if_splits select_case.splits)
      with y eq(2) show ?thesis
        by (auto split: outcome.splits option.splits if_splits)
    qed
  qed
qed

lemma waitForVolume_length:
  assumes "length s = length s'"
  shows "map_option fst (waitForVolume E c datasetID err k s)
           = map_option fst (waitForVolume E c datasetID err k s')"
proof (cases "waitForVolume E c datasetID err k s")
  case None
  show ?thesis
  proof (cases "waitForVolume E c datasetID err k s'")
    case None
    with \<open>waitForVolume E c datasetID err k s = None\<close> show ?thesis by simp
  next
    case (Some y)
    from waitForVolume_length_le [OF Some] assms None show ?thesis by auto
  qed
next
  case (Some y)
  from waitForVolume_length_le [OF Some] assms show ?thesis
    by (auto simp: Some)
qed


lemma post_cases:
  "post E c url payload sent =
     (case Marshal E payload of
        Inl msg \<Rightarrow> (Inl (LibraryError msg), sent)
      | Inr b \<Rightarrow>
          (case NewRequestError E ''POST'' url of
             Some msg \<Rightarrow> (Inl (LibraryError msg), sent)
           | None \<Rightarrow>
               ((case Reply E (length sent) of
                   Inl msg \<Rightarrow> Inl (LibraryError msg)
                 | Inr resp \<Rightarrow> Inr resp),
                sent @ [\<lparr>Method = ''POST'', URL = url, ContentType = ''application/json'',
                         request.Body = b\<rparr>])))"
  by (simp add: post_def request_def NewRequest_def Do_def split: sum.splits option.splits)

text \<open>
  In a run of \<open>CreateVolume\<close> that returns, the request after those of the lookup is
  the creation request, and the requests after it are polls.
\<close>

lemma CreateVolume_returned_requests:
  "(findPrimaryUUID E fc sent = ((primary, None), sent1)
      \<and> Marshal E (ConfigurationPayload
            \<lparr>configurationPayload.Primary = primary, DatasetID = datasetIDFromName E dir,
             MaximumSize = maximumSize fc, Metadata = \<lparr>Name = dir\<rparr>\<rparr>) = Inr b
      \<and> NewRequestError E ''POST'' (getURL fc ''configuration/datasets'') = None
      \<and> flockerClient_CreateVolume E fc dir sent = Some (r, sent')
     \<longrightarrow> (\<exists>n. sent' = sent1 @ \<lparr>Method = ''POST'', URL = getURL fc ''configuration/datasets'',
                                ContentType = ''application/json'', request.Body = b\<rparr>
                              # replicate n (pollRequest fc)))
   \<and> (LookupPrimaryUUID E c sent = ((primary, None), sent1)
      \<and> Marshal E (ConfigurationPayload
            \<lparr>configurationPayload.Primary = primary, DatasetID = [],
             MaximumSize = maximumSize c, Metadata = \<lparr>Name = dir\<rparr>\<rparr>) = Inr b
      \<and> NewRequestError E ''POST'' (getURL c ''configuration/datasets'') = None
      \<and> Client_CreateVolume E c dir sent = Some (r, sent')
     \<longrightarrow> (\<exists>n. sent' = sent1 @ \<lparr>Method = ''POST'', URL = getURL c ''configuration/datasets'',
                                ContentType = ''application/json'', request.Body = b\<rparr>
                              # replicate n (pollRequest c)))"
proof (intro conjI impI)
  let ?req = "\<lambda>url. \<lparr>Method = ''POST'', URL = url,
                ContentType = ''application/json'', request.Body = b\<rparr>"
  {
    assume h: "findPrimaryUUID E fc sent = ((primary, None), sent1)
      \<and> Marshal E (ConfigurationPayload
            \<lparr>configurationPayload.Primary = primary, DatasetID = datasetIDFromName E dir,
             MaximumSize = maximumSize fc, Metadata = \<lparr>Name = dir\<rparr>\<rparr>) = Inr b
      \<and> NewRequestError E ''POST'' (getURL fc ''configuration/datasets'') = None
      \<and> flockerClient_CreateVolume E fc dir sent = Some (r, sent')"
    let ?sent2 = "sent1 @ [?req (getURL fc ''configuration/datasets'')]"
    from h have "sent' = ?sent2
        \<or> (\<exists>err k. waitForVolume E fc (datasetIDFromName E dir) err k ?sent2 = Some (r, sent'))"
      by (auto simp: flockerClient_CreateVolume_def Let_def post_cases
          split: sum.splits if_splits)
    then show "\<exists>n. sent' = sent1 @ ?req (getURL fc ''configuration/datasets'')
                              # replicate n (pollRequest fc)"
    proof
      assume "sent' = ?sent2"
      then have "sent' = sent1 @ ?req (getURL fc ''configuration/datasets'')
                              # replicate 0 (pollRequest fc)"
        by simp
      then show ?thesis by blast
    next
      assume "\<exists>err k. waitForVolume E fc (datasetIDFromName E dir) err k ?sent2 = Some (r, sent')"
      then obtain err k
        where "waitForVolume E fc (datasetIDFromName E dir) err k ?sent2 = Some (r, sent')"
        by blast
      from waitForVolume_sent [OF this] show ?thesis by simp
    qed
  }
  {
    assume h: "LookupPrimaryUUID E c sent = ((primary, None), sent1)
      \<and> Marshal E (ConfigurationPayload
            \<lparr>configurationPayload.Primary = primary, DatasetID = [],
             MaximumSize = maximumSize c, Metadata = \<lparr>Name = dir\<rparr>\<rparr>) = Inr b
      \<and> NewRequestError E ''POST'' (getURL c ''configuration/datasets'') = None
      \<and> Client_CreateVolume E c dir sent = Some (r, sent')"
    let ?sent2 = "sent1 @ [?req (getURL c ''configuration/datasets'')]"
    from h have "sent' = ?sent2
        \<or> (\<exists>datasetID err k. waitForVolume E c datasetID err k ?sent2 = Some (r, sent'))"
      by (auto simp: Client_CreateVolume_def Let_def post_cases
          split: sum.splits if_splits)
    then show "\<exists>n. sent' = sent1 @ ?req (getURL c ''configuration/datasets'')
                              # replicate n (pollRequest c)"
    proof
      assume "sent' = ?sent2"
      then have "sent' = sent1 @ ?req (getURL c ''configuration/datasets'')
                              # replicate 0 (pollRequest c)"
        by simp
      then show ?thesis by blast
    next
      assume "\<exists>datasetID err k. waitForVolume E c datasetID err k ?sent2 = Some (r, sent')"
      then obtain datasetID err k
        where "waitForVolume E c datasetID err k ?sent2 = Some (r, sent')"
        by blast
      from waitForVolume_sent [OF this] show ?thesis by simp
    qed
  }
qed


subsection \<open>Runs observed for a number of rounds\<close>

text \<open>
  \<open>CreateVolume\<close> returns a result exactly when the run observed for some number of
  rounds has returned it, with the same requests sent.
\<close>

lemma waitForVolume_rounds_returned:
  "waitForVolume_rounds n E c datasetID err k sent = (Some r, sent') \<Longrightarrow>
   waitForVolume E c datasetID err k sent = Some (r, sent')"
proof (induction n arbitrary: k sent)
  case 0
  then show ?case by simp
next
  case (Suc n)
  obtain g t where g: "GetDatasetState E c datasetID sent = (g, t)"
    by (cases "GetDatasetState E c datasetID sent")
  show ?case
  proof (cases "\<exists>x. g = Return (x, Some errStateNotFound) \<and> Select E k = tickChan")
    case True
    then obtain x where x: "g = Return (x, Some errStateNotFound)" and tick: "Select E k = tickChan"
      by blast
    with Suc.prems g have "waitForVolume_rounds n E c datasetID err (Suc k) t = (Some r, sent')"
      by simp
    then have "waitForVolume E c datasetID err (Suc k) t = Some (r, sent')"
      by (rule Suc.IH)
    moreover have "waitForVolume E c datasetID err k sent = waitForVolume E c datasetID err (Suc k) t"
      using g x tick by (intro waitForVolume_tickChan) simp_all
    ultimately show ?thesis by simp
  next
    case False
    with Suc.prems g show ?thesis
      by (subst waitForVolume.simps)
         (auto split: outcome.splits option.splits if_splits select_case.splits)
  qed
qed

lemma waitForVolume_returns_in_rounds:
  assumes "waitForVolume E c datasetID err k sent = Some y"
  shows "\<exists>n. waitForVolume_rounds n E c datasetID err k sent = (Some (fst y), snd y)"
proof (rule waitForVolume.raw_induct
    [where P = "\<lambda>E c datasetID err k sent y.
       \<exists>n. waitForVolume_rounds n E c datasetID err k sent = (Some (fst y), snd y)",
     OF _ assms], goal_cases)
  case (1 wfv E c datasetID err k sent y)
  obtain g t where g: "GetDatasetState E c datasetID sent = (g, t)"
    by (cases "GetDatasetState E c datasetID sent")
  show ?case
  proof (cases "\<exists>x. g = Return (x, Some errStateNotFound) \<and> Select E k = tickChan")
    case True
    then obtain x where x: "g = Return (x, Some errStateNotFound)" and tick: "Select E k = tickChan"
      by blast
    with 1(2) g have "wfv E c datasetID err (k + 1) t = Some y"
      by simp
    from 1(1) [OF this]
    obtain n where "waitForVolume_rounds n E c datasetID err (k + 1) t = (Some (fst y), snd y)"
      by blast
    with g x tick have "waitForVolume_rounds (Suc n) E c datasetID err k sent = (Some (fst y), snd y)"
      by simp
    then show ?thesis by blast
  next
    case False
    with 1(2) g have "waitForVolume_rounds (Suc 0) E c datasetID err k sent = (Some (fst y), snd y)"
      by (auto split: outcome.splits option.splits if_splits select_case.splits)
    then show ?thesis by blast
  qed
qed

lemma waitForVolume_rounds_iff:
  "waitForVolume E c datasetID err k sent = Some (r, sent')
     \<longleftrightarrow> (\<exists>n. waitForVolume_rounds n E c datasetID err k sent = (Some r, sent'))"
  using waitForVolume_rounds_returned waitForVolume_returns_in_rounds by fastforce

lemma CreateVolume_rounds_iff:
  "flockerClient_CreateVolume E fc dir sent = Some (r, sent')
     \<longleftrightarrow> (\<exists>n. flockerClient_CreateVolume_rounds n E fc dir sent = (Some r, sent'))"
  "Client_CreateVolume E c dir sent = Some (r, sent')
     \<longleftrightarrow> (\<exists>n. Client_CreateVolume_rounds n E c dir sent = (Some r, sent'))"
  by (auto simp: flockerClient_CreateVolume_def flockerClient_CreateVolume_rounds_def
      Client_CreateVolume_def Client_CreateVolume_rounds_def Let_def waitForVolume_rounds_iff
      split: prod.splits option.splits sum.splits)

lemma waitForVolume_rounds_sent:
  "\<exists>m\<le>n. snd (waitForVolume_rounds n E c datasetID err k sent)
            = sent @ replicate m (pollRequest c)"
proof (induction n arbitrary: k sent)
  case 0
  show ?case by simp
next
  case (Suc n)
  obtain g t where g: "GetDatasetState E c datasetID sent = (g, t)"
    by (cases "GetDatasetState E c datasetID sent")
  from GetDatasetState_sent [OF g]
  obtain i where i: "i \<le> 1" "t = sent @ replicate i (pollRequest c)"
    by (metis append_Nil2 le_refl replicate_0 replicate.simps(2) zero_le One_nat_def)
  show ?case
  proof (cases "\<exists>x. g = Return (x, Some errStateNotFound) \<and> Select E k = tickChan")
    case True
    then obtain x where x: "g = Return (x, Some errStateNotFound)" and tick: "Select E k = tickChan"
      by blast
    from Suc.IH [of "k + 1" t]
    obtain m where m: "m \<le> n"
      "snd (waitForVolume_rounds n E c datasetID err (k + 1) t) = t @ replicate m (pollRequest c)"
      by blast
    from g x tick have "snd (waitForVolume_rounds (Suc n) E c datasetID err k sent)
        = snd (waitForVolume_rounds n E c datasetID err (k + 1) t)"
      by simp
    with m i have "snd (waitForVolume_rounds (Suc n) E c datasetID err k sent)
        = sent @ replicate (i + m) (pollRequest c)" and "i + m \<le> Suc n"
      by (simp_all add: replicate_add)
    then show ?thesis by blast
  next
    case False
    with g have "snd (waitForVolume_rounds (Suc n) E c datasetID err k sent) = t"
      by (auto split: outcome.splits option.splits if_splits select_case.splits)
    with i have "snd (waitForVolume_rounds (Suc n) E c datasetID err k sent)
        = sent @ replicate i (pollRequest c)" and "i \<le> Suc n"
      by simp_all
    then show ?thesis by blast
  qed
qed


text \<open>
  C4, as the code has it. In every run of \<open>flockerClient.CreateVolume\<close>, whether it
  returns or not and however many rounds of the loop are observed, once the primary is
  found the request after those of the lookup is the creation POST, and its body is the
  encoding of the payload with the primary found, the identifier computed from the name,
  the maximum size of the client and the name; the requests after it are polls. In
  every run of \<open>Client.CreateVolume\<close> the body is the encoding of the payload with the
  primary found, the maximum size and the name, and with no identifier. A run is
  observed for \<open>n\<close> rounds; \<open>CreateVolume\<close> returns a result, with the requests sent,
  exactly when the run observed for some number of rounds has returned it.
\<close>

theorem CreateVolume_creation_request:
  "(findPrimaryUUID E fc sent = ((primary, None), sent1)
      \<and> Marshal E (ConfigurationPayload
            \<lparr>configurationPayload.Primary = primary, DatasetID = datasetIDFromName E dir,
             MaximumSize = maximumSize fc, Metadata = \<lparr>Name = dir\<rparr>\<rparr>) = Inr b
      \<and> NewRequestError E ''POST'' (getURL fc ''configuration/datasets'') = None
     \<longrightarrow> (\<exists>m\<le>n. snd (flockerClient_CreateVolume_rounds n E fc dir sent)
                  = sent1 @ \<lparr>Method = ''POST'', URL = getURL fc ''configuration/datasets'',
                             ContentType = ''application/json'', request.Body = b\<rparr>
                           # replicate m (pollRequest fc)))
   \<and> (LookupPrimaryUUID E c sent = ((primary, None), sent1)
      \<and> Marshal E (ConfigurationPayload
            \<lparr>configurationPayload.Primary = primary, DatasetID = [],
             MaximumSize = maximumSize c, Metadata = \<lparr>Name = dir\<rparr>\<rparr>) = Inr b
      \<and> NewRequestError E ''POST'' (getURL c ''configuration/datasets'') = None
     \<longrightarrow> (\<exists>m\<le>n. snd (Client_CreateVolume_rounds n E c dir sent)
                  = sent1 @ \<lparr>Method = ''POST'', URL = getURL c ''configuration/datasets'',
                             ContentType = ''application/json'', request.Body = b\<rparr>
                           # replicate m (pollRequest c)))
   \<and> (flockerClient_CreateVolume E fc dir sent = Some (r, sent'))
       = (\<exists>n. flockerClient_CreateVolume_rounds n E fc dir sent = (Some r, sent'))
   \<and> (Client_CreateVolume E c dir sent = Some (r, sent'))
       = (\<exists>n. Client_CreateVolume_rounds n E c dir sent = (Some r, sent'))"
proof (intro conjI impI)
  let ?req = "\<lambda>url. \<lparr>Method = ''POST'', URL = url,
                ContentType = ''application/json'', request.Body = b\<rparr>"
  {
    assume h: "findPrimaryUUID E fc sent = ((primary, None), sent1)
      \<and> Marshal E (ConfigurationPayload
            \<lparr>configurationPayload.Primary = primary, DatasetID = datasetIDFromName E dir,
             MaximumSize = maximumSize fc, Metadata = \<lparr>Name = dir\<rparr>\<rparr>) = Inr b
      \<and> NewRequestError E ''POST'' (getURL fc ''configuration/datasets'') = None"
    let ?sent2 = "sent1 @ [?req (getURL fc ''configuration/datasets'')]"
    from h have "snd (flockerClient_CreateVolume_rounds n E fc dir sent) = ?sent2
        \<or> snd (flockerClient_CreateVolume_rounds n E fc dir sent)
            = snd (waitForVolume_rounds n E fc (datasetIDFromName E dir) None 0 ?sent2)"
      by (auto simp: flockerClient_CreateVolume_rounds_def Let_def post_cases
          split: sum.splits if_splits)
    then show "\<exists>m\<le>n. snd (flockerClient_CreateVolume_rounds n E fc dir sent)
                  = sent1 @ ?req (getURL fc ''configuration/datasets'')
                           # replicate m (pollRequest fc)"
    proof
      assume "snd (flockerClient_CreateVolume_rounds n E fc dir sent) = ?sent2"
      then have "0 \<le> n \<and> snd (flockerClient_CreateVolume_rounds n E fc dir sent)
                  = sent1 @ ?req (getURL fc ''configuration/datasets'')
                           # replicate 0 (pollRequest fc)"
        by simp
      then show ?thesis by blast
    next
      assume a: "snd (flockerClient_CreateVolume_rounds n E fc dir sent)
            = snd (waitForVolume_rounds n E fc (datasetIDFromName E dir) None 0 ?sent2)"
      from waitForVolume_rounds_sent [of n E fc "datasetIDFromName E dir" None 0 ?sent2]
      obtain m where "m \<le> n"
        "snd (waitForVolume_rounds n E fc (datasetIDFromName E dir) None 0 ?sent2)
           = ?sent2 @ replicate m (pollRequest fc)"
        by blast
      with a show ?thesis by auto
    qed
  }
  {
    assume h: "LookupPrimaryUUID E c sent = ((primary, None), sent1)
      \<and> Marshal E (ConfigurationPayload
            \<lparr>configurationPayload.Primary = primary, DatasetID = [],
             MaximumSize = maximumSize c, Metadata = \<lparr>Name = dir\<rparr>\<rparr>) = Inr b
      \<and> NewRequestError E ''POST'' (getURL c ''configuration/datasets'') = None"
    let ?sent2 = "sent1 @ [?req (getURL c ''configuration/datasets'')]"
    from h have "snd (Client_CreateVolume_rounds n E c dir sent) = ?sent2
        \<or> (\<exists>datasetID. snd (Client_CreateVolume_rounds n E c dir sent)
            = snd (waitForVolume_rounds n E c datasetID None 0 ?sent2))"
      by (auto simp: Client_CreateVolume_rounds_def Let_def post_cases
          split: sum.splits if_splits)
    then show "\<exists>m\<le>n. snd (Client_CreateVolume_rounds n E c dir sent)
                  = sent1 @ ?req (getURL c ''configuration/datasets'')
                           # replicate m (pollRequest c)"
    proof
      assume "snd (Client_CreateVolume_rounds n E c dir sent) = ?sent2"
      then have "0 \<le> n \<and> snd (Client_CreateVolume_rounds n E c dir sent)
                  = sent1 @ ?req (getURL c ''configuration/datasets'')
                           # replicate 0 (pollRequest c)"
        by simp
      then show ?thesis by blast
    next
      assume "\<exists>datasetID. snd (Client_CreateVolume_rounds n E c dir sent)
            = snd (waitForVolume_rounds n E c datasetID None 0 ?sent2)"
      then obtain datasetID where a: "snd (Client_CreateVolume_rounds n E c dir sent)
            = snd (waitForVolume_rounds n E c datasetID None 0 ?sent2)"
        by blast
      from waitForVolume_rounds_sent [of n E c datasetID None 0 ?sent2]
      obtain m where "m \<le> n"
        "snd (waitForVolume_rounds n E c datasetID None 0 ?sent2)
           = ?sent2 @ replicate m (pollRequest c)"
        by blast
      with a show ?thesis by auto
    qed
  }
  show "(flockerClient_CreateVolume E fc dir sent = Some (r, sent'))
       = (\<exists>n. flockerClient_CreateVolume_rounds n E fc dir sent = (Some r, sent'))"
    by (rule CreateVolume_rounds_iff)
  show "(Client_CreateVolume E c dir sent = Some (r, sent'))
       = (\<exists>n. Client_CreateVolume_rounds n E c dir sent = (Some r, sent'))"
    by (rule CreateVolume_rounds_iff)
qed

lemma pollRequest_testClient: "pollRequest testClient = sentGET ''state/datasets''"
  by (simp add: pollRequest_def sentGET_def getURL_testClient)

lemma NewRequestError_testEnv: "NewRequestError (testEnv replies selects) method url = None"
  by (simp add: testEnv_def)

lemma Reply_testEnv:
  "Reply (testEnv replies selects) n = (if n < length replies then replies ! n else Inl ''EOF'')"
  by (simp add: testEnv_def)

lemma Marshal_testEnv: "Marshal (testEnv replies selects) = testMarshal"
  by (simp add: testEnv_def)

text \<open>The scenario of \<open>TestHappyPathCreateVolumeFromNonExistent\<close>, for the name \<open>hello\<close>.\<close>

lemma CreateVolume_happy_path:
  "flockerClient_CreateVolume
     (testEnv [reply 200 nodesBody, reply 200 helloConfigurationBody,
               reply 200 noStatesBody, reply 200 helloStatesBody] [tickChan])
     testClient ''hello'' []
     = Some (Return (''/flocker/hello'', None),
             [sentGET ''state/nodes'', sentPOST ''configuration/datasets'' helloCreateBody,
              sentGET ''state/datasets'', sentGET ''state/datasets''])"
  "Client_CreateVolume
     (testEnv [reply 200 nodesBody, reply 200 helloConfigurationBody,
               reply 200 noStatesBody, reply 200 helloStatesBody] [tickChan])
     testClient ''hello'' []
     = Some (Return (''/flocker/hello'', None),
             [sentGET ''state/nodes'', sentPOST ''configuration/datasets'' helloCreateBodyNoID,
              sentGET ''state/datasets'', sentGET ''state/datasets''])"
proof -
  let ?E = "testEnv [reply 200 nodesBody, reply 200 helloConfigurationBody,
               reply 200 noStatesBody, reply 200 helloStatesBody] [tickChan]"
  let ?id = "''a6c0426f-f9a3-4b59-a62f-4807c382b768''"
  have loop: "waitForVolume ?E testClient ?id None 0 [sentGET ''state/nodes'', req]
     = Some (Return (''/flocker/hello'', None),
             [sentGET ''state/nodes'', req, sentGET ''state/datasets'', sentGET ''state/datasets''])"
    for req
  proof -
    have "waitForVolume ?E testClient ?id None 0 [sentGET ''state/nodes'', req]
        = waitForVolume ?E testClient ?id None (Suc 0)
            [sentGET ''state/nodes'', req, sentGET ''state/datasets'']"
      by (rule waitForVolume_tickChan [where s = None])
         (simp_all add: GetDatasetState_testEnv testEnv_simps testDecode_simps reply_def)
    also have "\<dots> = Some (Return (''/flocker/hello'', None),
             [sentGET ''state/nodes'', req, sentGET ''state/datasets'', sentGET ''state/datasets''])"
      by (rule waitForVolume_found
            [where d = "\<lparr>Path = ''/flocker/hello'', DatasetID = ?id,
                          Primary = [], MaximumSize = []\<rparr>", simplified])
         (simp add: GetDatasetState_testEnv testEnv_simps testDecode_simps reply_def)
    finally show ?thesis .
  qed
  show "flockerClient_CreateVolume ?E testClient ''hello'' []
     = Some (Return (''/flocker/hello'', None),
             [sentGET ''state/nodes'', sentPOST ''configuration/datasets'' helloCreateBody,
              sentGET ''state/datasets'', sentGET ''state/datasets''])"
    by (simp add: flockerClient_CreateVolume_def primaryUUID_testEnv datasetIDFromName_hello
        maximumSize_testClient post_testClient [OF testMarshal_simps(1)] loop)
  show "Client_CreateVolume ?E testClient ''hello'' []
     = Some (Return (''/flocker/hello'', None),
             [sentGET ''state/nodes'', sentPOST ''configuration/datasets'' helloCreateBodyNoID,
              sentGET ''state/datasets'', sentGET ''state/datasets''])"
    by (simp add: Client_CreateVolume_def primaryUUID_testEnv
        maximumSize_testClient post_testClient [OF testMarshal_simps(2)]
        testEnv_simps testDecode_simps loop)
qed

text \<open>
  A run that is still polling after two rounds: the server reports no state, and the
  \<open>select\<close>s receive ticks.
\<close>

lemma CreateVolume_rounds_still_polling:
  "flockerClient_CreateVolume_rounds 2
     (testEnv [reply 200 nodesBody, reply 200 helloConfigurationBody,
               reply 200 noStatesBody, reply 200 noStatesBody, reply 200 noStatesBody]
              [tickChan, tickChan, tickChan])
     testClient ''hello'' []
     = (None, [sentGET ''state/nodes'', sentPOST ''configuration/datasets'' helloCreateBody,
               sentGET ''state/datasets'', sentGET ''state/datasets''])"
  "Client_CreateVolume_rounds 2
     (testEnv [reply 200 nodesBody, reply 200 helloConfigurationBody,
               reply 200 noStatesBody, reply 200 noStatesBody, reply 200 noStatesBody]
              [tickChan, tickChan, tickChan])
     testClient ''hello'' []
     = (None, [sentGET ''state/nodes'', sentPOST ''configuration/datasets'' helloCreateBodyNoID,
               sentGET ''state/datasets'', sentGET ''state/datasets''])"
proof -
  let ?E = "testEnv [reply 200 nodesBody, reply 200 helloConfigurationBody,
               reply 200 noStatesBody, reply 200 noStatesBody, reply 200 noStatesBody]
              [tickChan, tickChan, tickChan]"
  let ?id = "''a6c0426f-f9a3-4b59-a62f-4807c382b768''"
  have loop: "waitForVolume_rounds 2 ?E testClient ?id None 0 [sentGET ''state/nodes'', req]
     = (None, [sentGET ''state/nodes'', req, sentGET ''state/datasets'', sentGET ''state/datasets''])"
    for req
    by (simp add: numeral_2_eq_2 GetDatasetState_testEnv testEnv_simps testDecode_simps reply_def)
  show "flockerClient_CreateVolume_rounds 2 ?E testClient ''hello'' []
     = (None, [sentGET ''state/nodes'', sentPOST ''configuration/datasets'' helloCreateBody,
               sentGET ''state/datasets'', sentGET ''state/datasets''])"
    by (simp add: flockerClient_CreateVolume_rounds_def primaryUUID_testEnv datasetIDFromName_hello
        maximumSize_testClient post_testClient [OF testMarshal_simps(1)] loop)
  show "Client_CreateVolume_rounds 2 ?E testClient ''hello'' []
     = (None, [sentGET ''state/nodes'', sentPOST ''configuration/datasets'' helloCreateBodyNoID,
               sentGET ''state/datasets'', sentGET ''state/datasets''])"
    by (simp add: Client_CreateVolume_rounds_def primaryUUID_testEnv
        maximumSize_testClient post_testClient [OF testMarshal_simps(2)]
        testEnv_simps testDecode_simps loop)
qed

theorem CreateVolume_creation_request_witness:
  "(\<exists>m\<le>2. snd (flockerClient_CreateVolume_rounds 2
        (testEnv [reply 200 nodesBody, reply 200 helloConfigurationBody,
                  reply 200 noStatesBody, reply 200 noStatesBody, reply 200 noStatesBody]
                 [tickChan, tickChan, tickChan])
        testClient ''hello'' [])
      = [sentGET ''state/nodes''] @ sentPOST ''configuration/datasets'' helloCreateBody
          # replicate m (pollRequest testClient))
   \<and> (\<exists>m\<le>2. snd (Client_CreateVolume_rounds 2
        (testEnv [reply 200 nodesBody, reply 200 helloConfigurationBody,
                  reply 200 noStatesBody, reply 200 noStatesBody, reply 200 noStatesBody]
                 [tickChan, tickChan, tickChan])
        testClient ''hello'' [])
      = [sentGET ''state/nodes''] @ sentPOST ''configuration/datasets'' helloCreateBodyNoID
          # replicate m (pollRequest testClient))"
proof -
  let ?E = "testEnv [reply 200 nodesBody, reply 200 helloConfigurationBody,
                  reply 200 noStatesBody, reply 200 noStatesBody, reply 200 noStatesBody]
                 [tickChan, tickChan, tickChan]"
  note w = CreateVolume_creation_request
    [where E = ?E and sent = "[]" and primary = "''A-B-C-D''" and dir = "''hello''"
       and ?sent1.0 = "[sentGET ''state/nodes'']" and n = 2]
  note ev = primaryUUID_testEnv datasetIDFromName_hello maximumSize_testClient
    Marshal_testEnv testMarshal_simps NewRequestError_testEnv sentPOST_def getURL_testClient
  have "\<exists>m\<le>2. snd (flockerClient_CreateVolume_rounds 2 ?E testClient ''hello'' [])
      = [sentGET ''state/nodes''] @ sentPOST ''configuration/datasets'' helloCreateBody
          # replicate m (pollRequest testClient)"
    using w [where fc = testClient and b = helloCreateBody, THEN conjunct1]
    by (simp add: ev)
  moreover
  have "\<exists>m\<le>2. snd (Client_CreateVolume_rounds 2 ?E testClient ''hello'' [])
      = [sentGET ''state/nodes''] @ sentPOST ''configuration/datasets'' helloCreateBodyNoID
          # replicate m (pollRequest testClient)"
    using w [where c = testClient and b = helloCreateBodyNoID,
        THEN conjunct2, THEN conjunct1]
    by (simp add: ev)
  ultimately show ?thesis by blast
qed

text \<open>
  In the scenario of the test, the creation request of \<open>Client.CreateVolume\<close> carries
  the encoding of the payload without an identifier, which is not the encoding of the
  payload with the identifier computed from the name.
\<close>

theorem Client_CreateVolume_payload_counterexample:
  "datasetIDFromName
      (testEnv [reply 200 nodesBody, reply 200 helloConfigurationBody,
               reply 200 noStatesBody, reply 200 helloStatesBody] [tickChan]) ''hello''
     = ''a6c0426f-f9a3-4b59-a62f-4807c382b768''
   \<and> Client_CreateVolume
     (testEnv [reply 200 nodesBody, reply 200 helloConfigurationBody,
               reply 200 noStatesBody, reply 200 helloStatesBody] [tickChan])
     testClient ''hello'' []
     = Some (Return (''/flocker/hello'', None),
             [sentGET ''state/nodes'', sentPOST ''configuration/datasets'' helloCreateBodyNoID,
              sentGET ''state/datasets'', sentGET ''state/datasets''])
   \<and> Marshal
      (testEnv [reply 200 nodesBody, reply 200 helloConfigurationBody,
               reply 200 noStatesBody, reply 200 helloStatesBody] [tickChan])
      (ConfigurationPayload
         \<lparr>configurationPayload.Primary = ''A-B-C-D'', DatasetID = [],
          MaximumSize = defaultVolumeSize, Metadata = \<lparr>Name = ''hello''\<rparr>\<rparr>)
     = Inr helloCreateBodyNoID
   \<and> Marshal
      (testEnv [reply 200 nodesBody, reply 200 helloConfigurationBody,
               reply 200 noStatesBody, reply 200 helloStatesBody] [tickChan])
      (ConfigurationPayload
         \<lparr>configurationPayload.Primary = ''A-B-C-D'',
          DatasetID = ''a6c0426f-f9a3-4b59-a62f-4807c382b768'',
          MaximumSize = defaultVolumeSize, Metadata = \<lparr>Name = ''hello''\<rparr>\<rparr>)
     = Inr helloCreateBody
   \<and> helloCreateBodyNoID \<noteq> helloCreateBody"
  by (simp add: datasetIDFromName_hello CreateVolume_happy_path Marshal_testEnv testMarshal_simps)
     (simp add: helloCreateBodyNoID_def helloCreateBody_def)


section \<open>The two versions of CreateVolume\<close>

lemma LookupPrimaryUUID_sent:
  "length (snd (LookupPrimaryUUID E c sent)) = length (snd (findPrimaryUUID E c sent))"
  by (simp add: LookupPrimaryUUID_def findPrimaryUUID_def split: prod.splits sum.splits)

text \<open>
  C10, as the code has it. On the same replies, \<open>Client.CreateVolume\<close> and
  \<open>flockerClient.CreateVolume\<close> return the same path and error, or both do not
  return, when the \<open>clientIP\<close> of the client is its \<open>host\<close>, \<open>json.Marshal\<close>
  fails on the two payloads alike, and the body of an accepted creation request decodes
  to a configuration whose identifier is the one computed from the name.
\<close>

theorem CreateVolume_versions_agree:
  assumes ip: "clientIP c = host c"
    and marshal: "\<forall>primary msg.
        (Marshal E (ConfigurationPayload
            \<lparr>configurationPayload.Primary = primary, DatasetID = [],
             MaximumSize = maximumSize c, Metadata = \<lparr>Name = dir\<rparr>\<rparr>) = Inl msg)
        = (Marshal E (ConfigurationPayload
            \<lparr>configurationPayload.Primary = primary, DatasetID = datasetIDFromName E dir,
             MaximumSize = maximumSize c, Metadata = \<lparr>Name = dir\<rparr>\<rparr>) = Inl msg)"
    and decode: "\<forall>resp. Reply E (length (snd (LookupPrimaryUUID E c sent))) = Inr resp
        \<and> StatusCode resp \<noteq> 409 \<and> StatusCode resp < 300
        \<longrightarrow> (\<exists>p. DecodeConfiguration E (response.Body resp) = Inr p
                  \<and> configurationPayload.DatasetID p = datasetIDFromName E dir)"
  shows "map_option fst (Client_CreateVolume E c dir sent)
           = map_option fst (flockerClient_CreateVolume E c dir sent)"
proof -
  have lookup: "LookupPrimaryUUID E c sent = findPrimaryUUID E c sent"
    unfolding LookupPrimaryUUID_def findPrimaryUUID_def ip by (rule refl)
  obtain primary err sent1 where f: "findPrimaryUUID E c sent = ((primary, err), sent1)"
    by (metis surj_pair)
  show ?thesis
  proof (cases err)
    case (Some e)
    with f lookup show ?thesis
      by (simp add: Client_CreateVolume_def flockerClient_CreateVolume_def)
  next
    case None
    let ?url = "getURL c ''configuration/datasets''"
    let ?p1 = "ConfigurationPayload
            \<lparr>configurationPayload.Primary = primary, DatasetID = [],
             MaximumSize = maximumSize c, Metadata = \<lparr>Name = dir\<rparr>\<rparr>"
    let ?p2 = "ConfigurationPayload
            \<lparr>configurationPayload.Primary = primary, DatasetID = datasetIDFromName E dir,
             MaximumSize = maximumSize c, Metadata = \<lparr>Name = dir\<rparr>\<rparr>"
    have C: "Client_CreateVolume E c dir sent =
        (case post E c ?url ?p1 sent1 of
           (Inl err, sent2) \<Rightarrow> Some (Return ([], Some err), sent2)
         | (Inr resp, sent2) \<Rightarrow>
             if StatusCode resp = 409
             then Some (Return ([], Some errVolumeAlreadyExists), sent2)
             else if StatusCode resp \<ge> 300
             then Some (Return ([], Some (Errorf
                    (''Expected: {1,2}xx creating the volume, got: '' @ itoa (StatusCode resp)))), sent2)
             else (case DecodeConfiguration E (response.Body resp) of
                     Inl msg \<Rightarrow> Some (Return ([], Some (LibraryError msg)), sent2)
                   | Inr p \<Rightarrow>
                       waitForVolume E c (configurationPayload.DatasetID p) None 0 sent2))"
      using f lookup None by (simp add: Client_CreateVolume_def)
    have F: "flockerClient_CreateVolume E c dir sent =
        (case post E c ?url ?p2 sent1 of
           (Inl err, sent2) \<Rightarrow> Some (Return ([], Some err), sent2)
         | (Inr resp, sent2) \<Rightarrow>
             if StatusCode resp = 409
             then Some (Return ([], Some errVolumeAlreadyExists), sent2)
             else if StatusCode resp \<ge> 300
             then Some (Return ([], Some (Errorf
                    (''Expected: {1,2}xx creating the volume, got: '' @ itoa (StatusCode resp)))), sent2)
             else waitForVolume E c (datasetIDFromName E dir) None 0 sent2)"
      using f None by (simp add: flockerClient_CreateVolume_def Let_def)
    show ?thesis
    proof (cases "Marshal E ?p1")
      case (Inl msg)
      moreover from Inl marshal have "Marshal E ?p2 = Inl msg"
        by blast
      ultimately show ?thesis
        by (simp add: C F post_cases)
    next
      case (Inr b1)
      have "Marshal E ?p2 \<noteq> Inl msg" for msg
        using marshal Inr by (metis sum.distinct(1))
      then obtain b2 where b2: "Marshal E ?p2 = Inr b2"
        by (cases "Marshal E ?p2") auto
      show ?thesis
      proof (cases "NewRequestError E ''POST'' ?url")
        case (Some msg)
        with Inr b2 show ?thesis
          by (simp add: C F post_cases)
      next
        case None
        let ?s1 = "sent1 @ [\<lparr>Method = ''POST'', URL = ?url, ContentType = ''application/json'',
                         request.Body = b1\<rparr>]"
        let ?s2 = "sent1 @ [\<lparr>Method = ''POST'', URL = ?url, ContentType = ''application/json'',
                         request.Body = b2\<rparr>]"
        show ?thesis
        proof (cases "Reply E (length sent1)")
          case (Inl msg)
          with Inr b2 None show ?thesis
            by (simp add: C F post_cases)
        next
          case reply: (Inr resp)
          show ?thesis
          proof (cases "StatusCode resp = 409 \<or> StatusCode resp \<ge> 300")
            case True
            with Inr b2 None reply show ?thesis
              by (auto simp: C F post_cases)
          next
            case False
            have "length (snd (LookupPrimaryUUID E c sent)) = length sent1"
              using f lookup by simp
            with decode reply False
            obtain p where p: "DecodeConfiguration E (response.Body resp) = Inr p"
              "configurationPayload.DatasetID p = datasetIDFromName E dir"
              by auto
            have "map_option fst (waitForVolume E c (datasetIDFromName E dir) None 0 ?s1)
                = map_option fst (waitForVolume E c (datasetIDFromName E dir) None 0 ?s2)"
              by (rule waitForVolume_length) simp
            with Inr b2 None reply False p show ?thesis
              by (simp add: C F post_cases)
          qed
        qed
      qed
    qed
  qed
qed

theorem CreateVolume_versions_agree_witness:
  "map_option fst
     (Client_CreateVolume
        (testEnv [reply 200 nodesBody, reply 200 helloConfigurationBody,
                  reply 200 noStatesBody, reply 200 helloStatesBody] [tickChan])
        testClient ''hello'' [])
   = map_option fst
     (flockerClient_CreateVolume
        (testEnv [reply 200 nodesBody, reply 200 helloConfigurationBody,
                  reply 200 noStatesBody, reply 200 helloStatesBody] [tickChan])
        testClient ''hello'' [])"
proof (rule CreateVolume_versions_agree)
  let ?E = "testEnv [reply 200 nodesBody, reply 200 helloConfigurationBody,
                  reply 200 noStatesBody, reply 200 helloStatesBody] [tickChan]"
  show "clientIP testClient = host testClient"
    by (simp add: testClient_def)
  show "\<forall>primary msg.
        (Marshal ?E (ConfigurationPayload
            \<lparr>configurationPayload.Primary = primary, DatasetID = [],
             MaximumSize = maximumSize testClient, Metadata = \<lparr>Name = ''hello''\<rparr>\<rparr>) = Inl msg)
        = (Marshal ?E (ConfigurationPayload
            \<lparr>configurationPayload.Primary = primary, DatasetID = datasetIDFromName ?E ''hello'',
             MaximumSize = maximumSize testClient, Metadata = \<lparr>Name = ''hello''\<rparr>\<rparr>) = Inl msg)"
    by (simp add: Marshal_testEnv testMarshal_def)
  have len: "length (snd (LookupPrimaryUUID ?E testClient [])) = Suc 0"
    by (simp add: primaryUUID_testEnv)
  show "\<forall>resp. Reply ?E (length (snd (LookupPrimaryUUID ?E testClient []))) = Inr resp
        \<and> StatusCode resp \<noteq> 409 \<and> StatusCode resp < 300
        \<longrightarrow> (\<exists>p. DecodeConfiguration ?E (response.Body resp) = Inr p
                  \<and> configurationPayload.DatasetID p = datasetIDFromName ?E ''hello'')"
    unfolding len
    by (auto simp: datasetIDFromName_hello testEnv_simps testDecode_simps
        Reply_testEnv reply_def)
qed

text \<open>
  A server that accepts the creation request with an empty body and then reports the
  state of the volume: \<open>Client.CreateVolume\<close> fails on decoding the body, and
  \<open>flockerClient.CreateVolume\<close>, which does not read it, returns the path.
\<close>

theorem CreateVolume_versions_differ_counterexample:
  "Client_CreateVolume
     (testEnv [reply 200 nodesBody, reply 200 [], reply 200 helloStatesBody] [])
     testClient ''hello'' []
     = Some (Return ([], Some (LibraryError ''EOF'')),
             [sentGET ''state/nodes'', sentPOST ''configuration/datasets'' helloCreateBodyNoID])
   \<and> flockerClient_CreateVolume
     (testEnv [reply 200 nodesBody, reply 200 [], reply 200 helloStatesBody] [])
     testClient ''hello'' []
     = Some (Return (''/flocker/hello'', None),
             [sentGET ''state/nodes'', sentPOST ''configuration/datasets'' helloCreateBody,
              sentGET ''state/datasets''])"
proof -
  let ?E = "testEnv [reply 200 nodesBody, reply 200 [], reply 200 helloStatesBody] []"
  let ?id = "''a6c0426f-f9a3-4b59-a62f-4807c382b768''"
  have loop: "waitForVolume ?E testClient ?id None 0
                [sentGET ''state/nodes'', sentPOST ''configuration/datasets'' helloCreateBody]
     = Some (Return (''/flocker/hello'', None),
             [sentGET ''state/nodes'', sentPOST ''configuration/datasets'' helloCreateBody,
              sentGET ''state/datasets''])"
    by (rule waitForVolume_found
          [where d = "\<lparr>Path = ''/flocker/hello'', DatasetID = ?id,
                        Primary = [], MaximumSize = []\<rparr>", simplified])
       (simp add: GetDatasetState_testEnv testEnv_simps testDecode_simps reply_def)
  have "Client_CreateVolume ?E testClient ''hello'' []
     = Some (Return ([], Some (LibraryError ''EOF'')),
             [sentGET ''state/nodes'', sentPOST ''configuration/datasets'' helloCreateBodyNoID])"
    by (simp add: Client_CreateVolume_def primaryUUID_testEnv
        maximumSize_testClient post_testClient [OF testMarshal_simps(2)]
        testEnv_simps testDecodeConfiguration_def helloConfigurationBody_def
        otherConfigurationBody_def)
  moreover
  have "flockerClient_CreateVolume ?E testClient ''hello'' []
     = Some (Return (''/flocker/hello'', None),
             [sentGET ''state/nodes'', sentPOST ''configuration/datasets'' helloCreateBody,
              sentGET ''state/datasets''])"
    by (simp add: flockerClient_CreateVolume_def primaryUUID_testEnv datasetIDFromName_hello
        maximumSize_testClient post_testClient [OF testMarshal_simps(1)] loop)
  ultimately show ?thesis by blast
qed

text \<open>
  The two versions differ on the lookup of the primary as well, when the \<open>clientIP\<close>
  of the client is not its \<open>host\<close>.
\<close>

lemma CreateVolume_versions_differ_on_clientIP:
  "Client_CreateVolume (testEnv [reply 200 nodesBody] []) (testClient\<lparr>clientIP := ''10.0.0.7''\<rparr>)
     ''hello'' []
     = Some (Return ([], Some errStateNotFound), [sentGET ''state/nodes''])
   \<and> flockerClient_CreateVolume (testEnv [reply 200 nodesBody] [])
     (testClient\<lparr>clientIP := ''10.0.0.7''\<rparr>) ''hello'' []
     = Some (Return ([], Some (LibraryError ''EOF'')),
             [sentGET ''state/nodes'', sentPOST ''configuration/datasets'' helloCreateBody])"
proof -
  let ?E = "testEnv [reply 200 nodesBody] []"
  let ?c = "testClient\<lparr>clientIP := ''10.0.0.7''\<rparr>"
  have l: "LookupPrimaryUUID ?E ?c [] = (([], Some errStateNotFound), [sentGET ''state/nodes''])"
    by (simp add: LookupPrimaryUUID_def get_testEnv getURL_testClient testEnv_simps
        testDecodeNodes_def reply_def sentGET_def)
  have f: "findPrimaryUUID ?E ?c [] = ((''A-B-C-D'', None), [sentGET ''state/nodes''])"
    by (simp add: findPrimaryUUID_def get_testEnv getURL_testClient testEnv_simps
        testDecodeNodes_def reply_def sentGET_def)
       (simp add: testClient_def)
  have m: "maximumSize ?c = defaultVolumeSize"
    by (simp add: testClient_def)
  have p: "post ?E ?c (getURL ?c ''configuration/datasets'')
             (ConfigurationPayload
                \<lparr>configurationPayload.Primary = ''A-B-C-D'',
                 DatasetID = ''a6c0426f-f9a3-4b59-a62f-4807c382b768'',
                 MaximumSize = defaultVolumeSize, Metadata = \<lparr>Name = ''hello''\<rparr>\<rparr>)
             [sentGET ''state/nodes'']
        = (Inl (LibraryError ''EOF''),
           [sentGET ''state/nodes'', sentPOST ''configuration/datasets'' helloCreateBody])"
    by (simp add: post_testEnv [OF testMarshal_simps(1)] getURL_testClient sentPOST_def)
  show ?thesis
    by (simp add: Client_CreateVolume_def flockerClient_CreateVolume_def l f m p
        datasetIDFromName_hello)
qed

end
